theory Spec2Isabelle
  imports Main "HOL-Library.AList" "HOL-Library.FSet" "HOL-Library.Multiset"
    "HOL-Library.Signed_Division"
begin

section \<open>The commit log (server/commitlog/commitlog.go)\<close>

text \<open>
  Offsets, timestamps and the high watermark are Go \<open>int64\<close> values. The only arithmetic
  the commit log does on them is \<open>NextOffset() - 1\<close>, \<open>NewestOffset() + 1\<close> and ordering,
  on values that start at \<open>-1\<close> and grow by one per record, so they are modelled by
  \<open>int\<close>. Leader epochs are \<open>uint64\<close> values that are only compared, modelled by \<open>nat\<close>.
\<close>

subsection \<open>Records, segments and the leader epoch cache\<close>

record message =
  Offset :: int
  Timestamp :: int
  LeaderEpoch :: nat
  Key :: string
  Value :: string

datatype error =
    ErrCommitLogReadonly
  | ErrSegmentExists
  | ErrIncorrectOffset
  | ErrSegmentSealed
  | ErrEpochNotMonotonic
  | IOError string

text \<open>
  The file operations of a segment and of the epoch checkpoint can fail. Which of them
  fail is the environment's choice: \<open>io_fault\<close> names the calls that return an error.
\<close>

datatype io_call =
    SegNew int
  | SegDelete int
  | SegTruncated int
  | SegWrite int int
  | SegReplace int
  | EpochCheckpoint

text \<open>
  Modelled from the spec: the segment (segment.go is not part of the sources). A segment
  is \<open>{baseOffset, nextOffset, sealed, dataFile}\<close>; \<open>contents\<close> is the data file as the
  scanner reads it, one record per scanned message set. The byte position and the first
  write time of the spec's segment only feed the rolling policy, which is the parameter
  \<open>CheckSplit\<close> below.
\<close>

record segment =
  BaseOffset :: int
  nextOffset :: int
  contents :: "message list"
  sealed :: bool

text \<open>
  The parts of the commit log's surroundings that are not in commitlog.go:
  \<open>io_fault\<close> (above), \<open>segment.CheckSplit(maxSegmentAge)\<close> and
  \<open>newMessageSetFromProto(baseOffset, basePosition, msgs, concurrencyControl)\<close>, which
  frames a batch at the given base offset or rejects it.
\<close>

record log_env =
  io_fault :: "io_call \<Rightarrow> error option"
  CheckSplit :: "segment \<Rightarrow> bool"
  newMessageSetFromProto :: "int \<Rightarrow> message list \<Rightarrow> bool \<Rightarrow> error + message list"

text \<open>Modelled from the spec: \<open>create(path, baseOffset, ...)\<close> returns a segment with
  \<open>nextOffset = baseOffset\<close> and nothing written.\<close>

definition newSegment :: "log_env \<Rightarrow> int \<Rightarrow> error + segment" where
  "newSegment env base =
     (case io_fault env (SegNew base) of
        Some e \<Rightarrow> Inl e
      | None \<Rightarrow> Inr \<lparr>BaseOffset = base, nextOffset = base, contents = [], sealed = False\<rparr>)"

definition NextOffset :: "segment \<Rightarrow> int" where
  "NextOffset s = nextOffset s"

text \<open>Modelled from the spec: \<open>seal()\<close> marks the segment immutable and disallows
  further writes.\<close>

definition Seal :: "segment \<Rightarrow> segment" where
  "Seal s = s\<lparr>sealed := True\<rparr>"

text \<open>Modelled from the spec: \<open>writeMessageSet(bytes, entries)\<close> appends the records to
  the data file and updates \<open>nextOffset\<close>, to one past the last offset written.\<close>

definition WriteMessageSet :: "log_env \<Rightarrow> segment \<Rightarrow> message list \<Rightarrow> error + segment" where
  "WriteMessageSet env s ms =
     (if sealed s then Inl ErrSegmentSealed
      else case io_fault env (SegWrite (BaseOffset s) (nextOffset s)) of
        Some e \<Rightarrow> Inl e
      | None \<Rightarrow> Inr (s\<lparr>contents := contents s @ ms,
                        nextOffset := (if ms = [] then nextOffset s else Offset (last ms) + 1)\<rparr>))"






record epochOffset =
  leaderEpoch :: nat
  startOffset :: int

text \<open>Modelled from the spec: the leader epoch cache (leader_epoch_cache.go is not part
  of the sources), a list of \<open>{epoch, startOffset}\<close> in insertion order.
  \<open>lastLeaderEpoch()\<close> is 0 on an empty cache.\<close>

definition cache_LastLeaderEpoch :: "epochOffset list \<Rightarrow> nat" where
  "cache_LastLeaderEpoch c = (if c = [] then 0 else leaderEpoch (last c))"

text \<open>Modelled from the spec: \<open>assign(epoch, offset)\<close> appends \<open>{epoch, offset}\<close> iff
  \<open>epoch > lastEpoch\<close> and persists the cache; its error is a monotonicity violation.\<close>

definition cache_Assign :: "log_env \<Rightarrow> epochOffset list \<Rightarrow> nat \<Rightarrow> int \<Rightarrow> error + epochOffset list" where
  "cache_Assign env c epoch off =
     (if cache_LastLeaderEpoch c < epoch then
        (case io_fault env EpochCheckpoint of
           Some e \<Rightarrow> Inl e
         | None \<Rightarrow> Inr (c @ [\<lparr>leaderEpoch = epoch, startOffset = off\<rparr>]))
      else Inl ErrEpochNotMonotonic)"

text \<open>Modelled from the spec: \<open>lastOffsetForLeaderEpoch(requestedEpoch)\<close>: if requested
  == lastEpoch return -1; else return \<open>startOffset\<close> of the least epoch strictly greater
  than requested; if no such epoch exists return -1.\<close>

definition cache_LastOffsetForLeaderEpoch :: "epochOffset list \<Rightarrow> nat \<Rightarrow> int" where
  "cache_LastOffsetForLeaderEpoch c requested =
     (if requested = cache_LastLeaderEpoch c then - 1
      else (let greater = filter (\<lambda>e. requested < leaderEpoch e) c
            in if greater = [] then - 1
               else startOffset (arg_min_list leaderEpoch greater)))"


subsection \<open>The log\<close>

text \<open>
  \<open>hwWaiters\<close> is the Go map from readers to channels, as an association list with one
  entry per key. A channel is \<open>make(chan bool, 1)\<close>; channels are objects on the heap, so
  the log carries a store \<open>chans\<close> from channel addresses to the values sent on the
  channel so far, and \<open>nextChan\<close>, the next unused address. \<open>vActiveSegment\<close> points to
  the last element of \<open>segments\<close> wherever commitlog.go stores it (\<open>open\<close>, \<open>split\<close>,
  \<open>Truncate\<close>), so the active segment is read as that element.
\<close>

type_synonym contextReader = nat
type_synonym chan = nat

record commitLog =
  readonly :: bool
  hw :: int
  segments :: "segment list"
  hwWaiters :: "(contextReader \<times> chan) list"
  leaderEpochCache :: "epochOffset list"
  ConcurrencyControl :: bool
  chans :: "chan \<Rightarrow> bool list"
  nextChan :: chan

definition activeSegment :: "commitLog \<Rightarrow> segment" where
  "activeSegment l = last (segments l)"

definition setActiveSegment :: "commitLog \<Rightarrow> segment \<Rightarrow> commitLog" where
  "setActiveSegment l s = l\<lparr>segments := butlast (segments l) @ [s]\<rparr>"

definition IsReadonly :: "commitLog \<Rightarrow> bool" where
  "IsReadonly l = readonly l"

definition IsConcurrencyControlEnabled :: "commitLog \<Rightarrow> bool" where
  "IsConcurrencyControlEnabled l = ConcurrencyControl l"

definition NewestOffset :: "commitLog \<Rightarrow> int" where
  "NewestOffset l = NextOffset (activeSegment l) - 1"

definition HighWatermark :: "commitLog \<Rightarrow> int" where
  "HighWatermark l = hw l"

subsection \<open>Appending\<close>

text \<open>
  \<open>split\<close>: the compare-and-swap on the active segment pointer succeeds when no other
  thread runs, which is the case modelled here.
\<close>

definition split_log :: "log_env \<Rightarrow> commitLog \<Rightarrow> error + commitLog" where
  "split_log env l =
     (let off = NewestOffset l + 1
      in case newSegment env off of
           Inl e \<Rightarrow> Inl e
         | Inr seg \<Rightarrow> Inr (l\<lparr>segments := segments l @ [seg]\<rparr>))"

text \<open>
  \<open>checkAndPerformSplit\<close> retries for as long as the split reports \<open>ErrSegmentExists\<close>;
  the loop need not end, so the result is an option and \<open>None\<close> is a run that never
  returns. After a split the former active segment is sealed.
\<close>

partial_function (option) checkAndPerformSplit ::
  "log_env \<Rightarrow> commitLog \<Rightarrow> ((error + bool) \<times> commitLog) option" where
  "checkAndPerformSplit env l =
     (if \<not> CheckSplit env (activeSegment l) then Some (Inr False, l)
      else case split_log env l of
             Inl e \<Rightarrow> if e = ErrSegmentExists then checkAndPerformSplit env l
                      else Some (Inl e, l)
           | Inr l' \<Rightarrow>
               Some (Inr True,
                     l'\<lparr>segments := butlast (segments l) @ [Seal (activeSegment l), last (segments l')]\<rparr>))"

fun assign_epochs ::
  "log_env \<Rightarrow> epochOffset list \<Rightarrow> nat \<Rightarrow> message list \<Rightarrow> error option \<times> epochOffset list" where
  "assign_epochs env c lastLeaderEpoch [] = (None, c)"
| "assign_epochs env c lastLeaderEpoch (entry # entries) =
     (if LeaderEpoch entry > lastLeaderEpoch then
        (case cache_Assign env c (LeaderEpoch entry) (Offset entry) of
           Inl e \<Rightarrow> (Some e, c)
         | Inr c' \<Rightarrow> assign_epochs env c' (LeaderEpoch entry) entries)
      else assign_epochs env c lastLeaderEpoch entries)"

text \<open>The unexported \<open>append\<close>: write to the given (active) segment, then record every
  new leader epoch met in the entries, and return the entries' offsets.\<close>

definition append_log ::
  "log_env \<Rightarrow> commitLog \<Rightarrow> message list \<Rightarrow> (error + int list) \<times> commitLog" where
  "append_log env l ms =
     (case WriteMessageSet env (activeSegment l) ms of
        Inl e \<Rightarrow> (Inl e, l)
      | Inr seg \<Rightarrow>
          (let l1 = setActiveSegment l seg
           in case assign_epochs env (leaderEpochCache l1)
                     (cache_LastLeaderEpoch (leaderEpochCache l1)) ms of
                (Some e, c) \<Rightarrow> (Inl e, l1\<lparr>leaderEpochCache := c\<rparr>)
              | (None, c) \<Rightarrow> (Inr (map Offset ms), l1\<lparr>leaderEpochCache := c\<rparr>)))"

definition Append ::
  "log_env \<Rightarrow> commitLog \<Rightarrow> message list \<Rightarrow> ((error + int list) \<times> commitLog) option" where
  "Append env l msgs =
     (if IsReadonly l then Some (Inl ErrCommitLogReadonly, l)
      else case checkAndPerformSplit env l of
             None \<Rightarrow> None
           | Some (Inl e, l1) \<Rightarrow> Some (Inl e, l1)
           | Some (Inr _, l1) \<Rightarrow>
               (let seg = activeSegment l1;
                    baseOffset = NextOffset seg
                in case newMessageSetFromProto env baseOffset msgs (IsConcurrencyControlEnabled l1) of
                     Inl e \<Rightarrow> Some (Inl e, l1)
                   | Inr ms \<Rightarrow> Some (append_log env l1 ms)))"

text \<open>The raw bytes of a message set are modelled by the records they frame, so
  \<open>entriesForMessageSet\<close> is the identity.\<close>

definition AppendMessageSet ::
  "log_env \<Rightarrow> commitLog \<Rightarrow> message list \<Rightarrow> ((error + int list) \<times> commitLog) option" where
  "AppendMessageSet env l ms =
     (case checkAndPerformSplit env l of
        None \<Rightarrow> None
      | Some (Inl e, l1) \<Rightarrow> Some (Inl e, l1)
      | Some (Inr _, l1) \<Rightarrow> Some (append_log env l1 ms))"

subsection \<open>The high watermark and its waiters\<close>

fun send_all :: "bool \<Rightarrow> (contextReader \<times> chan) list \<Rightarrow> (chan \<Rightarrow> bool list) \<Rightarrow> (chan \<Rightarrow> bool list)" where
  "send_all v [] cs = cs"
| "send_all v ((r, ch) # ws) cs = send_all v ws (cs(ch := cs ch @ [v]))"

definition notifyHWChange :: "commitLog \<Rightarrow> commitLog" where
  "notifyHWChange l = l\<lparr>chans := send_all False (hwWaiters l) (chans l), hwWaiters := []\<rparr>"


definition SetHighWatermark :: "commitLog \<Rightarrow> int \<Rightarrow> commitLog" where
  "SetHighWatermark l h = (if h > hw l then notifyHWChange (l\<lparr>hw := h\<rparr>) else l)"

definition OverrideHighWatermark :: "commitLog \<Rightarrow> int \<Rightarrow> commitLog" where
  "OverrideHighWatermark l h = notifyHWChange (l\<lparr>hw := h\<rparr>)"








subsection \<open>Leader epochs\<close>

definition LastOffsetForLeaderEpoch :: "commitLog \<Rightarrow> nat \<Rightarrow> int" where
  "LastOffsetForLeaderEpoch l epoch =
     (let off = cache_LastOffsetForLeaderEpoch (leaderEpochCache l) epoch
      in if off = - 1 then NextOffset (activeSegment l) - 1 else off)"

subsection \<open>Truncation\<close>




subsection \<open>The invariants of the log\<close>




subsection \<open>A concrete log\<close>

text \<open>
  A log of two segments holding the offsets 0 to 5, written under the leader epochs 1
  (offsets 0 to 3) and 2 (offsets 4 and 5), with the high watermark at 3 and two parked
  readers; and an environment in which no file operation fails, no segment is rolled and
  a batch is framed by numbering its records from the base offset.
\<close>

definition ex_msg :: "int \<Rightarrow> nat \<Rightarrow> message" where
  "ex_msg off ep = \<lparr>Offset = off, Timestamp = 10 * off, LeaderEpoch = ep, Key = ''k'', Value = ''v''\<rparr>"

definition ex_seg0 :: segment where
  "ex_seg0 = \<lparr>BaseOffset = 0, nextOffset = 3,
              contents = [ex_msg 0 1, ex_msg 1 1, ex_msg 2 1], sealed = True\<rparr>"

definition ex_seg1 :: segment where
  "ex_seg1 = \<lparr>BaseOffset = 3, nextOffset = 6,
              contents = [ex_msg 3 1, ex_msg 4 2, ex_msg 5 2], sealed = False\<rparr>"

definition ex_log :: commitLog where
  "ex_log = \<lparr>readonly = False, hw = 3, segments = [ex_seg0, ex_seg1],
             hwWaiters = [(1, 0), (2, 1)],
             leaderEpochCache = [\<lparr>leaderEpoch = 1, startOffset = 0\<rparr>,
                                 \<lparr>leaderEpoch = 2, startOffset = 4\<rparr>],
             ConcurrencyControl = False, chans = (\<lambda>ch. []), nextChan = 2\<rparr>"

definition ex_env :: log_env where
  "ex_env = \<lparr>io_fault = (\<lambda>c. None), CheckSplit = (\<lambda>s. False),
             newMessageSetFromProto =
               (\<lambda>base ms occ. Inr (map (\<lambda>(i, m). m\<lparr>Offset := base + int i\<rparr>) (enumerate 0 ms)))\<rparr>"

section \<open>The metadata API (server/metadata.go)\<close>

text \<open>
  Broker load counters are Go \<open>int\<close> values that move by one per applied operation;
  they are modelled by \<open>int\<close>, far below the 64-bit limit. Partition ids and
  replication factors are \<open>int32\<close> values that are only compared, and epochs are
  \<open>uint64\<close> values that are only compared and stored; they are modelled by \<open>int\<close>
  and \<open>nat\<close>. Times are nanosecond counts.
\<close>

subsection \<open>Data\<close>

datatype code = InvalidArgument | FailedPrecondition | Internal | NotFound | AlreadyExists

datatype status = Status code string

text \<open>The errors of the metadata store. \<open>Failure\<close> is an error returned by a call
  into another file; formatted messages are kept without their arguments.\<close>

datatype meta_error =
    ErrStreamExists
  | ErrStreamNotFound
  | ErrPartitionNotFound
  | ErrNoPartitions
  | ErrNoSuchPartition
  | ErrPartitionExists
  | Wrapped string meta_error
  | Failure string

text \<open>
  Modelled from the spec: the partition (partition.go is not part of the sources), with
  the fields of the spec's Partition that metadata.go reads:
  \<open>{stream, id, replicas, isr, leader, epoch, paused}\<close>, the replication factor of the
  request and the leader epoch that \<open>GetLeader\<close> returns with the leader. The ISR is a
  set; it is kept as the list \<open>GetISR\<close> returns.
\<close>

record partition =
  Stream :: string
  PartitionId :: int
  ReplicationFactor :: int
  Replicas :: "string list"
  Isr :: "string list"
  Leader :: string
  PartitionLeaderEpoch :: nat
  Epoch :: nat
  Paused :: bool

definition GetEpoch :: "partition \<Rightarrow> nat" where
  "GetEpoch p = Epoch p"

definition SetEpoch :: "partition \<Rightarrow> nat \<Rightarrow> partition" where
  "SetEpoch p e = p\<lparr>Epoch := e\<rparr>"

definition GetLeader :: "partition \<Rightarrow> string \<times> nat" where
  "GetLeader p = (Leader p, PartitionLeaderEpoch p)"

definition GetISR :: "partition \<Rightarrow> string list" where
  "GetISR p = Isr p"

definition ISRSize :: "partition \<Rightarrow> nat" where
  "ISRSize p = length (Isr p)"

definition GetReplicas :: "partition \<Rightarrow> string list" where
  "GetReplicas p = Replicas p"

definition IsPaused :: "partition \<Rightarrow> bool" where
  "IsPaused p = Paused p"

text \<open>
  Modelled from the spec: the stream (stream.go is not part of the sources),
  \<open>{name, subject, partitions, creationTime, tombstoned}\<close>. The partition map is an
  association list; its order stands for the order in which Go ranges over the map.
\<close>

record stream =
  streamName :: string
  subject :: string
  partitions :: "(int \<times> partition) list"
  creationTime :: int
  tombstoned :: bool

definition newStream :: "string \<Rightarrow> string \<Rightarrow> int \<Rightarrow> stream" where
  "newStream n sub t =
     \<lparr>streamName = n, subject = sub, partitions = [], creationTime = t, tombstoned = False\<rparr>"

definition stream_GetPartition :: "stream \<Rightarrow> int \<Rightarrow> partition option" where
  "stream_GetPartition s i = map_of (partitions s) i"

definition SetPartition :: "stream \<Rightarrow> int \<Rightarrow> partition \<Rightarrow> stream" where
  "SetPartition s i p = s\<lparr>partitions := AList.update i p (partitions s)\<rparr>"

definition GetPartitions :: "stream \<Rightarrow> partition list" where
  "GetPartitions s = map snd (partitions s)"

definition IsTombstoned :: "stream \<Rightarrow> bool" where
  "IsTombstoned s = tombstoned s"

definition Tombstone :: "stream \<Rightarrow> stream" where
  "Tombstone s = s\<lparr>tombstoned := True\<rparr>"

record protoStream =
  ps_Name :: string
  ps_Subject :: string
  ps_Partitions :: "partition list"
  ps_CreationTimestamp :: int

record broker =
  BrokerId :: string
  Host :: string
  Port :: int
  PartitionCount :: int
  LeaderCount :: int

record serverInfoResponse =
  resp_Id :: string
  resp_Host :: string
  resp_Port :: int

datatype timer = TimerRunning | TimerStopped

text \<open>A leader report: the witnesses and the expiry timer (\<open>None\<close> for \<open>nil\<close>). Its
  partition pointer is the key under which the store holds the report.\<close>

record leaderReport =
  witnessReplicas :: "string fset"
  timer :: "timer option"

datatype raft_op =
    OpChangeLeader string int string
  | OpCreateStream protoStream

datatype raft_outcome = Applied | PreconditionFailed string | ReplicationFailed string

text \<open>
  The store. \<open>leaderReports\<close> is keyed by partition pointers, modelled by the stream
  name and partition id under which the store holds the partition. The load maps are Go
  maps from broker ids to counts, where a missing key reads as 0.
\<close>

record metadataAPI =
  streams :: "(string \<times> stream) list"
  leaderReports :: "((string \<times> int) \<times> leaderReport) list"
  cachedBrokers :: "broker list"
  cachedServerIDs :: "string fset"
  lastCached :: int
  brokerPartitionLoad :: "string \<rightharpoonup> int"
  brokerLeaderLoad :: "string \<rightharpoonup> int"

text \<open>
  What metadata.go calls but does not define: the server's configuration, the Raft
  node, the message bus, and the methods of partitions and streams that start and stop
  replication and touch the disk. A method of a partition returns its error and the
  partition as the call left it.
\<close>

record meta_env =
  ServerID :: string
  ConnectionHost :: string
  ConnectionPort :: int
  MetadataCacheMaxAge :: int
  IsLeader :: bool
  propagateRequest :: "bool \<times> status option"
  getClusterServerIDs :: "meta_error + string list"
  applyOperation :: "raft_op \<Rightarrow> meta_error option \<Rightarrow> raft_outcome"
  subscribeError :: "string option"
  publishError :: "string option"
  surveyMessages :: "serverInfoResponse option list"
  partition_RemoveFromISR :: "string \<Rightarrow> partition \<Rightarrow> meta_error option \<times> partition"
  partition_AddToISR :: "string \<Rightarrow> partition \<Rightarrow> meta_error option \<times> partition"
  partition_SetLeader :: "string \<Rightarrow> nat \<Rightarrow> partition \<Rightarrow> meta_error option \<times> partition"
  partition_Pause :: "partition \<Rightarrow> meta_error option \<times> partition"
  stream_Pause :: "int list \<Rightarrow> bool \<Rightarrow> stream \<Rightarrow> meta_error + partition list \<times> stream"
  stream_Close :: "stream \<Rightarrow> meta_error option"
  stream_Delete :: "stream \<Rightarrow> meta_error option"
  removeDataDir :: "stream \<Rightarrow> meta_error option"
  newPartition :: "partition \<Rightarrow> bool \<Rightarrow> meta_error + partition"
  replacePartition :: "partition \<Rightarrow> bool \<Rightarrow> meta_error + partition"

definition newMetadataAPI :: metadataAPI where
  "newMetadataAPI =
     \<lparr>streams = [], leaderReports = [], cachedBrokers = [], cachedServerIDs = {||},
      lastCached = 0, brokerPartitionLoad = Map.empty, brokerLeaderLoad = Map.empty\<rparr>"

subsection \<open>Lookups and the load counters\<close>


definition GetStream :: "metadataAPI \<Rightarrow> string \<Rightarrow> stream option" where
  "GetStream m n = map_of (streams m) n"

definition GetPartition :: "metadataAPI \<Rightarrow> string \<Rightarrow> int \<Rightarrow> partition option" where
  "GetPartition m sn i =
     (case map_of (streams m) sn of None \<Rightarrow> None | Some s \<Rightarrow> stream_GetPartition s i)"

text \<open>A partition is a pointer held by its stream: a method that changes it is
  modelled by writing the new value back where \<open>GetPartition\<close> found it.\<close>

definition storePartition :: "metadataAPI \<Rightarrow> string \<Rightarrow> int \<Rightarrow> partition \<Rightarrow> metadataAPI" where
  "storePartition m sn i p =
     (case map_of (streams m) sn of
        None \<Rightarrow> m
      | Some s \<Rightarrow> m\<lparr>streams := AList.update sn (SetPartition s i p) (streams m)\<rparr>)"

definition load_of :: "(string \<rightharpoonup> int) \<Rightarrow> string \<Rightarrow> int" where
  "load_of ld b = (case ld b of None \<Rightarrow> 0 | Some n \<Rightarrow> n)"

text \<open>\<open>load[b]++\<close>, and the guarded \<open>if load[b] > 0 { load[b]-- }\<close>.\<close>

definition incr :: "(string \<rightharpoonup> int) \<Rightarrow> string \<Rightarrow> (string \<rightharpoonup> int)" where
  "incr ld b = ld(b \<mapsto> load_of ld b + 1)"

definition decr :: "(string \<rightharpoonup> int) \<Rightarrow> string \<Rightarrow> (string \<rightharpoonup> int)" where
  "decr ld b = (if load_of ld b > 0 then ld(b \<mapsto> load_of ld b - 1) else ld)"



subsection \<open>Replica placement and leader election\<close>

definition maxReplicationFactor :: int where
  "maxReplicationFactor = - 1"

text \<open>\<open>sort.SliceStable\<close> with the comparison \<open>load[ids[i]] < load[ids[j]]\<close> is a
  stable sort by load, which is \<open>sort_key\<close>.\<close>

definition getPartitionReplicas :: "meta_env \<Rightarrow> metadataAPI \<Rightarrow> int \<Rightarrow> status + string list" where
  "getPartitionReplicas env m replicationFactor =
     (case getClusterServerIDs env of
        Inl e \<Rightarrow> Inl (Status Internal ''failed to get cluster configuration'')
      | Inr ids \<Rightarrow>
          (let rf = (if replicationFactor = maxReplicationFactor then int (length ids)
                     else replicationFactor)
           in if rf \<le> 0 then Inl (Status InvalidArgument ''Invalid replicationFactor'')
              else if rf > int (length ids)
                then Inl (Status InvalidArgument ''Invalid replicationFactor, cluster size'')
              else Inr (take (nat rf) (sort_key (load_of (brokerPartitionLoad m)) ids))))"

text \<open>
  \<open>selectPartitionLeader\<close> sorts its argument in place and returns its first element:
  the result is the leader and the slice as sorted. On an empty slice \<open>replicas[0]\<close>
  panics, which is \<open>None\<close>.
\<close>

definition selectPartitionLeader :: "metadataAPI \<Rightarrow> string list \<Rightarrow> (string \<times> string list) option" where
  "selectPartitionLeader m replicas =
     (let sorted_replicas = sort_key (load_of (brokerLeaderLoad m)) replicas
      in case sorted_replicas of [] \<Rightarrow> None | r # rs \<Rightarrow> Some (r, sorted_replicas))"

text \<open>The body of the loop of \<open>CreateStream\<close> that places one partition: its replicas
  and ISR are the slice that \<open>selectPartitionLeader\<close> has sorted.\<close>

definition placePartition :: "meta_env \<Rightarrow> metadataAPI \<Rightarrow> partition \<Rightarrow> (status + partition) option" where
  "placePartition env m p =
     (case getPartitionReplicas env m (ReplicationFactor p) of
        Inl st \<Rightarrow> Some (Inl st)
      | Inr replicas \<Rightarrow>
          (case selectPartitionLeader m replicas of
             None \<Rightarrow> None
           | Some (leader, replicas') \<Rightarrow>
               Some (Inr (p\<lparr>Replicas := replicas', Isr := replicas', Leader := leader\<rparr>))))"

definition partitionExists :: "metadataAPI \<Rightarrow> string \<Rightarrow> int \<Rightarrow> meta_error option" where
  "partitionExists m sn i =
     (case GetStream m sn of
        None \<Rightarrow> Some ErrStreamNotFound
      | Some s \<Rightarrow> (case stream_GetPartition s i of
                     None \<Rightarrow> Some ErrPartitionNotFound
                   | Some p \<Rightarrow> None))"

definition checkChangeLeaderPreconditions :: "metadataAPI \<Rightarrow> raft_op \<Rightarrow> meta_error option" where
  "checkChangeLeaderPreconditions m op =
     (case op of OpChangeLeader sn i leader \<Rightarrow> partitionExists m sn i | _ \<Rightarrow> None)"

text \<open>
  \<open>electNewPartitionLeader\<close> returns its status (\<open>None\<close> for \<open>nil\<close>) and the operation it
  handed to Raft, if it got that far. Applying a committed operation to the store is the
  state machine's step (\<open>ChangeLeader\<close> below).
\<close>

definition electNewPartitionLeader ::
  "meta_env \<Rightarrow> metadataAPI \<Rightarrow> partition \<Rightarrow> status option \<times> raft_op option" where
  "electNewPartitionLeader env m p =
     (let isr = GetISR p
      in if length isr \<le> 1 then (Some (Status FailedPrecondition ''No ISR candidates''), None)
         else
           (let leader = fst (GetLeader p);
                candidates = filter (\<lambda>candidate. candidate \<noteq> leader) isr
            in if length candidates = 0
               then (Some (Status FailedPrecondition ''No ISR candidates''), None)
               else
                 (case selectPartitionLeader m candidates of
                    None \<Rightarrow> (Some (Status Internal ''panic: index out of range''), None)
                  | Some (newLeader, cs) \<Rightarrow>
                      (let op = OpChangeLeader (Stream p) (PartitionId p) newLeader
                       in case applyOperation env op (checkChangeLeaderPreconditions m op) of
                            PreconditionFailed msg \<Rightarrow> (Some (Status FailedPrecondition msg), Some op)
                          | ReplicationFailed msg \<Rightarrow>
                              (Some (Status Internal (''Failed to replicate leader change: '' @ msg)),
                               Some op)
                          | Applied \<Rightarrow> (None, Some op)))))"

text \<open>
  \<open>addWitness\<close> on the report \<open>l\<close> of the partition \<open>p\<close>: the status, the operation
  handed to Raft, and the report as the call leaves it. \<open>isrSize / 2\<close> is Go's division,
  which truncates towards zero.
\<close>

definition addWitness ::
  "meta_env \<Rightarrow> metadataAPI \<Rightarrow> leaderReport \<Rightarrow> partition \<Rightarrow> string \<Rightarrow>
     (status option \<times> raft_op option) \<times> leaderReport" where
  "addWitness env m l p replica =
     (let l1 = l\<lparr>witnessReplicas := finsert replica (witnessReplicas l)\<rparr>;
          isrSize = int (ISRSize p) - 1;
          leaderFailed = (int (fcard (witnessReplicas l1)) > isrSize sdiv 2)
      in if leaderFailed then
           (electNewPartitionLeader env m p,
            l1\<lparr>timer := (case timer l1 of None \<Rightarrow> None | Some t \<Rightarrow> Some TimerStopped)\<rparr>)
         else ((None, None), l1\<lparr>timer := Some TimerRunning\<rparr>))"

text \<open>The function the expiry timer runs: it deletes the partition's report.\<close>

definition leaderReportExpired :: "metadataAPI \<Rightarrow> string \<times> int \<Rightarrow> metadataAPI" where
  "leaderReportExpired m k = m\<lparr>leaderReports := AList.delete k (leaderReports m)\<rparr>"

record reportLeaderOp =
  req_Stream :: string
  req_Partition :: int
  req_Replica :: string
  req_Leader :: string
  req_LeaderEpoch :: nat

definition ReportLeader ::
  "meta_env \<Rightarrow> metadataAPI \<Rightarrow> reportLeaderOp \<Rightarrow> (status option \<times> raft_op option) \<times> metadataAPI" where
  "ReportLeader env m req =
     (case (if \<not> IsLeader env then
              (case propagateRequest env of
                 (isLeader, Some st) \<Rightarrow> Some (Some st)
               | (isLeader, None) \<Rightarrow> if \<not> isLeader then Some None else None)
            else None) of
        Some st \<Rightarrow> ((st, None), m)
      | None \<Rightarrow>
          (case GetPartition m (req_Stream req) (req_Partition req) of
             None \<Rightarrow> ((Some (Status FailedPrecondition ''No such partition''), None), m)
           | Some p \<Rightarrow>
               (let (leader, epoch) = GetLeader p
                in if req_Leader req \<noteq> leader \<or> req_LeaderEpoch req \<noteq> epoch
                   then ((Some (Status FailedPrecondition ''Leader generation mismatch''), None), m)
                   else
                     (let k = (req_Stream req, req_Partition req);
                          reported = (case map_of (leaderReports m) k of
                                        None \<Rightarrow> \<lparr>witnessReplicas = {||}, timer = None\<rparr>
                                      | Some r \<Rightarrow> r);
                          m1 = m\<lparr>leaderReports := AList.update k reported (leaderReports m)\<rparr>
                      in case addWitness env m1 reported p (req_Replica req) of
                           (res, reported') \<Rightarrow>
                             (res, m1\<lparr>leaderReports := AList.update k reported' (leaderReports m1)\<rparr>)))))"

subsection \<open>The ISR, the leader and the epoch fence\<close>

definition RemoveFromISR ::
  "meta_env \<Rightarrow> metadataAPI \<Rightarrow> string \<Rightarrow> string \<Rightarrow> int \<Rightarrow> nat \<Rightarrow> meta_error option \<times> metadataAPI" where
  "RemoveFromISR env m sn replica partitionID epoch =
     (case GetPartition m sn partitionID of
        None \<Rightarrow> (Some ErrNoSuchPartition, m)
      | Some p \<Rightarrow>
          if GetEpoch p \<ge> epoch then (None, m)
          else (case partition_RemoveFromISR env replica p of
                  (Some e, p') \<Rightarrow>
                    (Some (Wrapped ''failed to remove from ISR'' e), storePartition m sn partitionID p')
                | (None, p') \<Rightarrow> (None, storePartition m sn partitionID (SetEpoch p' epoch))))"

definition AddToISR ::
  "meta_env \<Rightarrow> metadataAPI \<Rightarrow> string \<Rightarrow> string \<Rightarrow> int \<Rightarrow> nat \<Rightarrow> meta_error option \<times> metadataAPI" where
  "AddToISR env m sn replica partitionID epoch =
     (case GetPartition m sn partitionID of
        None \<Rightarrow> (Some ErrNoSuchPartition, m)
      | Some p \<Rightarrow>
          if GetEpoch p \<ge> epoch then (None, m)
          else (case partition_AddToISR env replica p of
                  (Some e, p') \<Rightarrow>
                    (Some (Wrapped ''failed to add to ISR'' e), storePartition m sn partitionID p')
                | (None, p') \<Rightarrow> (None, storePartition m sn partitionID (SetEpoch p' epoch))))"

definition ChangeLeader ::
  "meta_env \<Rightarrow> metadataAPI \<Rightarrow> string \<Rightarrow> string \<Rightarrow> int \<Rightarrow> nat \<Rightarrow> meta_error option \<times> metadataAPI" where
  "ChangeLeader env m sn leader partitionID epoch =
     (case GetPartition m sn partitionID of
        None \<Rightarrow> (Some ErrNoSuchPartition, m)
      | Some p \<Rightarrow>
          if GetEpoch p \<ge> epoch then (None, m)
          else
            (let oldLeader = fst (GetLeader p)
             in case partition_SetLeader env leader epoch p of
                  (Some e, p') \<Rightarrow>
                    (Some (Wrapped ''failed to change partition leader'' e),
                     storePartition m sn partitionID p')
                | (None, p') \<Rightarrow>
                    (let m1 = storePartition m sn partitionID (SetEpoch p' epoch)
                     in (None,
                         m1\<lparr>brokerLeaderLoad := incr (decr (brokerLeaderLoad m1) oldLeader) leader\<rparr>))))"

text \<open>The partition's own methods do not write its epoch: only \<open>SetEpoch\<close> does.\<close>

definition keeps_epoch :: "meta_env \<Rightarrow> bool" where
  "keeps_epoch env =
     ((\<forall>r q. Epoch (snd (partition_RemoveFromISR env r q)) = Epoch q) \<and>
      (\<forall>r q. Epoch (snd (partition_AddToISR env r q)) = Epoch q) \<and>
      (\<forall>l e q. Epoch (snd (partition_SetLeader env l e q)) = Epoch q))"

subsection \<open>Adding, pausing, resuming and removing streams\<close>

definition removeStream :: "metadataAPI \<Rightarrow> stream \<Rightarrow> metadataAPI" where
  "removeStream m s =
     m\<lparr>streams := AList.delete (streamName s) (streams m),
       leaderReports :=
         filter (\<lambda>(k, r). k \<notin> set (map (\<lambda>(i, p). (streamName s, i)) (partitions s)))
           (leaderReports m)\<rparr>"

definition deleteStream :: "meta_env \<Rightarrow> metadataAPI \<Rightarrow> stream \<Rightarrow> meta_error option \<times> metadataAPI" where
  "deleteStream env m s =
     (case stream_Delete env s of
        Some e \<Rightarrow> (Some (Wrapped ''failed to delete stream'' e), m)
      | None \<Rightarrow>
          (case removeDataDir env s of
             Some e \<Rightarrow> (Some (Wrapped ''failed to delete stream data directory'' e), m)
           | None \<Rightarrow> (None, removeStream m s)))"

definition addPartition ::
  "meta_env \<Rightarrow> stream \<Rightarrow> partition \<Rightarrow> bool \<Rightarrow> meta_error option \<times> stream" where
  "addPartition env s protoPartition recovered =
     (case stream_GetPartition s (PartitionId protoPartition) of
        Some p \<Rightarrow> (Some ErrPartitionExists, s)
      | None \<Rightarrow>
          (case newPartition env protoPartition recovered of
             Inl e \<Rightarrow> (Some e, s)
           | Inr p \<Rightarrow>
               (let i = PartitionId protoPartition;
                    s1 = SetPartition s i p
                in case (if Paused protoPartition then partition_Pause env p else (None, p)) of
                     (Some e, p1) \<Rightarrow> (Some e, SetPartition s1 i p1)
                   | (None, p1) \<Rightarrow>
                       (let (leader, epoch) = GetLeader p1
                        in case partition_SetLeader env leader epoch p1 of
                             (e, p2) \<Rightarrow> (e, SetPartition s1 i p2)))))"

fun addPartitions ::
  "meta_env \<Rightarrow> stream \<Rightarrow> partition list \<Rightarrow> bool \<Rightarrow> meta_error option \<times> stream" where
  "addPartitions env s [] recovered = (None, s)"
| "addPartitions env s (p # ps) recovered =
     (case addPartition env s p recovered of
        (Some e, s') \<Rightarrow> (Some e, s')
      | (None, s') \<Rightarrow> addPartitions env s' ps recovered)"

text \<open>The two loops over a list of partitions that update the load counters: the
  increments of \<open>AddStream\<close>, and the guarded decrements of \<open>PausePartitions\<close> and
  \<open>RemoveStream\<close>.\<close>

definition addLoad :: "metadataAPI \<Rightarrow> partition \<Rightarrow> metadataAPI" where
  "addLoad m p =
     m\<lparr>brokerPartitionLoad := foldl incr (brokerPartitionLoad m) (Replicas p),
       brokerLeaderLoad := incr (brokerLeaderLoad m) (Leader p)\<rparr>"

definition removeLoad :: "metadataAPI \<Rightarrow> partition \<Rightarrow> metadataAPI" where
  "removeLoad m p =
     m\<lparr>brokerPartitionLoad := foldl decr (brokerPartitionLoad m) (Replicas p),
       brokerLeaderLoad := decr (brokerLeaderLoad m) (Leader p)\<rparr>"

definition AddStream ::
  "meta_env \<Rightarrow> metadataAPI \<Rightarrow> protoStream \<Rightarrow> bool \<Rightarrow> (meta_error + stream) \<times> metadataAPI" where
  "AddStream env m ps recovered =
     (if length (ps_Partitions ps) = 0 then (Inl ErrNoPartitions, m)
      else
        (case (case map_of (streams m) (ps_Name ps) of
                 None \<Rightarrow> Inr m
               | Some existing \<Rightarrow>
                   if \<not> recovered then Inl ErrStreamExists
                   else if \<not> IsTombstoned existing then Inl ErrStreamExists
                   else (case stream_Close env existing of
                           Some e \<Rightarrow> Inl e
                         | None \<Rightarrow> Inr (removeStream m existing))) of
           Inl e \<Rightarrow> (Inl e, m)
         | Inr m1 \<Rightarrow>
             (let s0 = newStream (ps_Name ps) (ps_Subject ps) (ps_CreationTimestamp ps);
                  m2 = m1\<lparr>streams := AList.update (ps_Name ps) s0 (streams m1)\<rparr>
              in case addPartitions env s0 (ps_Partitions ps) recovered of
                   (Some e, s1) \<Rightarrow> (Inl e, removeStream m2 s1)
                 | (None, s1) \<Rightarrow>
                     (let m3 = m2\<lparr>streams := AList.update (ps_Name ps) s1 (streams m2)\<rparr>
                      in (Inr s1, foldl addLoad m3 (GetPartitions s1))))))"

definition ResumePartition ::
  "meta_env \<Rightarrow> metadataAPI \<Rightarrow> string \<Rightarrow> int \<Rightarrow> bool \<Rightarrow>
     (partition option \<times> meta_error option) \<times> metadataAPI" where
  "ResumePartition env m sn i recovered =
     (case map_of (streams m) sn of
        None \<Rightarrow> ((None, Some ErrStreamNotFound), m)
      | Some s \<Rightarrow>
          (case stream_GetPartition s i of
             None \<Rightarrow> ((None, Some ErrPartitionNotFound), m)
           | Some p \<Rightarrow>
               if \<not> IsPaused p then ((Some p, None), m)
               else
                 (case replacePartition env p recovered of
                    Inl e \<Rightarrow> ((None, Some e), m)
                  | Inr p1 \<Rightarrow>
                      (let (leader, epoch) = GetLeader p1
                       in case partition_SetLeader env leader epoch p1 of
                            (err, p2) \<Rightarrow>
                              (let m1 = m\<lparr>streams := AList.update sn (SetPartition s i p2) (streams m)\<rparr>
                               in ((Some p2, err),
                                   m1\<lparr>brokerPartitionLoad :=
                                        foldl incr (brokerPartitionLoad m1) (GetReplicas p2),
                                      brokerLeaderLoad := incr (brokerLeaderLoad m1) leader\<rparr>))))))"

definition PausePartitions ::
  "meta_env \<Rightarrow> metadataAPI \<Rightarrow> string \<Rightarrow> int list \<Rightarrow> bool \<Rightarrow> meta_error option \<times> metadataAPI" where
  "PausePartitions env m sn ids resumeAll =
     (case GetStream m sn of
        None \<Rightarrow> (Some ErrStreamNotFound, m)
      | Some s \<Rightarrow>
          (case stream_Pause env ids resumeAll s of
             Inl e \<Rightarrow> (Some (Wrapped ''failed to pause stream'' e), m)
           | Inr (paused, s') \<Rightarrow>
               (None, foldl removeLoad (m\<lparr>streams := AList.update sn s' (streams m)\<rparr>) paused)))"

text \<open>\<open>RemoveStream\<close> takes the stream as the store holds it.\<close>

definition RemoveStream ::
  "meta_env \<Rightarrow> metadataAPI \<Rightarrow> stream \<Rightarrow> bool \<Rightarrow> meta_error option \<times> metadataAPI" where
  "RemoveStream env m s recovered =
     (case (if recovered
            then (None, m\<lparr>streams := AList.update (streamName s) (Tombstone s) (streams m)\<rparr>)
            else deleteStream env m s) of
        (Some e, m1) \<Rightarrow> (Some e, m1)
      | (None, m1) \<Rightarrow> (None, foldl removeLoad m1 (GetPartitions s)))"

text \<open>The operations of the metadata store that move the load counters, as steps of a
  state machine; each step comes with the environment it runs in.\<close>

datatype meta_op =
    DoAddStream protoStream bool
  | DoResumePartition string int bool
  | DoChangeLeader string string int nat
  | DoPausePartitions string "int list" bool
  | DoRemoveStream stream bool

fun meta_step :: "metadataAPI \<Rightarrow> meta_env \<times> meta_op \<Rightarrow> metadataAPI" where
  "meta_step m (env, DoAddStream ps recovered) = snd (AddStream env m ps recovered)"
| "meta_step m (env, DoResumePartition sn i recovered) = snd (ResumePartition env m sn i recovered)"
| "meta_step m (env, DoChangeLeader sn leader i epoch) = snd (ChangeLeader env m sn leader i epoch)"
| "meta_step m (env, DoPausePartitions sn ids resumeAll) = snd (PausePartitions env m sn ids resumeAll)"
| "meta_step m (env, DoRemoveStream s recovered) = snd (RemoveStream env m s recovered)"

definition meta_run :: "metadataAPI \<Rightarrow> (meta_env \<times> meta_op) list \<Rightarrow> metadataAPI" where
  "meta_run m ops = foldl meta_step m ops"

definition loads_nonneg :: "metadataAPI \<Rightarrow> bool" where
  "loads_nonneg m =
     (\<forall>b. 0 \<le> load_of (brokerPartitionLoad m) b \<and> 0 \<le> load_of (brokerLeaderLoad m) b)"

subsection \<open>The broker cache\<close>









subsection \<open>A concrete cluster\<close>

text \<open>
  Modelled from the spec: an environment for the calls that leave metadata.go, in which
  nothing fails. The cluster has the brokers a, b and c; Raft applies an operation
  whose precondition holds. Removing from and adding to the ISR are the set operations
  on the spec's \<open>isr\<close>; \<open>SetLeader\<close> stores the leader and its epoch; pausing sets the
  spec's \<open>paused\<close> flag, of the given partitions or of all when none is given; a partition
  is created from its request as it is and replaced by itself, resumed.
\<close>

definition ex_stream_Pause :: "int list \<Rightarrow> bool \<Rightarrow> stream \<Rightarrow> meta_error + partition list \<times> stream" where
  "ex_stream_Pause ids resumeAll s =
     (let sel = (if ids = [] then map fst (partitions s) else ids)
      in if \<exists>i\<in>set sel. map_of (partitions s) i = None then Inl ErrPartitionNotFound
         else Inr (map (\<lambda>i. (the (map_of (partitions s) i))\<lparr>Paused := True\<rparr>) sel,
                   s\<lparr>partitions := map (\<lambda>(i, p). (i, if i \<in> set sel then p\<lparr>Paused := True\<rparr> else p))
                                       (partitions s)\<rparr>))"

definition ex_meta_env :: meta_env where
  "ex_meta_env =
     \<lparr>ServerID = ''a'', ConnectionHost = ''localhost'', ConnectionPort = 9292,
      MetadataCacheMaxAge = 100, IsLeader = True, propagateRequest = (False, None),
      getClusterServerIDs = Inr [''a'', ''b'', ''c''],
      applyOperation = (\<lambda>op pre. case pre of None \<Rightarrow> Applied
                                  | Some e \<Rightarrow> PreconditionFailed ''precondition''),
      subscribeError = None, publishError = None,
      surveyMessages = [Some \<lparr>resp_Id = ''b'', resp_Host = ''localhost'', resp_Port = 9293\<rparr>,
                        None,
                        Some \<lparr>resp_Id = ''c'', resp_Host = ''localhost'', resp_Port = 9294\<rparr>],
      partition_RemoveFromISR = (\<lambda>r p. (None, p\<lparr>Isr := removeAll r (Isr p)\<rparr>)),
      partition_AddToISR = (\<lambda>r p. (None, p\<lparr>Isr := List.insert r (Isr p)\<rparr>)),
      partition_SetLeader = (\<lambda>leader epoch p. (None, p\<lparr>Leader := leader, PartitionLeaderEpoch := epoch\<rparr>)),
      partition_Pause = (\<lambda>p. (None, p\<lparr>Paused := True\<rparr>)),
      stream_Pause = ex_stream_Pause,
      stream_Close = (\<lambda>s. None), stream_Delete = (\<lambda>s. None), removeDataDir = (\<lambda>s. None),
      newPartition = (\<lambda>p recovered. Inr p),
      replacePartition = (\<lambda>p recovered. Inr (p\<lparr>Paused := False\<rparr>))\<rparr>"

text \<open>A store with three streams of one partition each: \<open>s\<close> on the brokers a, b and c
  led by a, \<open>t\<close> on a alone and \<open>u\<close> on b alone, and the load counters that adding them
  leaves.\<close>

definition ex_partition :: "string \<Rightarrow> string list \<Rightarrow> string \<Rightarrow> partition" where
  "ex_partition sn rs leader =
     \<lparr>Stream = sn, PartitionId = 0, ReplicationFactor = int (length rs), Replicas = rs, Isr = rs,
      Leader = leader, PartitionLeaderEpoch = 5, Epoch = 5, Paused = False\<rparr>"

definition ex_stream :: "string \<Rightarrow> string list \<Rightarrow> string \<Rightarrow> stream" where
  "ex_stream sn rs leader =
     \<lparr>streamName = sn, subject = sn, partitions = [(0, ex_partition sn rs leader)],
      creationTime = 0, tombstoned = False\<rparr>"

definition ex_meta :: metadataAPI where
  "ex_meta =
     \<lparr>streams = [(''s'', ex_stream ''s'' [''a'', ''b'', ''c''] ''a''),
                 (''t'', ex_stream ''t'' [''a''] ''a''),
                 (''u'', ex_stream ''u'' [''b''] ''b'')],
      leaderReports = [], cachedBrokers = [], cachedServerIDs = {||}, lastCached = 0,
      brokerPartitionLoad = [''a'' \<mapsto> 2, ''b'' \<mapsto> 2, ''c'' \<mapsto> 1],
      brokerLeaderLoad = [''a'' \<mapsto> 2, ''b'' \<mapsto> 1]\<rparr>"

text \<open>A load map is non-negative when every broker's count is.\<close>

definition nn :: "(string \<rightharpoonup> int) \<Rightarrow> bool" where
  "nn ld = (\<forall>b. 0 \<le> load_of ld b)"

text \<open>A run from the empty store: a stream on the brokers a and b is added, paused and
  removed.\<close>

definition ex_ops :: "(meta_env \<times> meta_op) list" where
  "ex_ops =
     [(ex_meta_env,
       DoAddStream \<lparr>ps_Name = ''v'', ps_Subject = ''v'',
                    ps_Partitions = [ex_partition ''v'' [''a'', ''b''] ''a''],
                    ps_CreationTimestamp = 0\<rparr> False),
      (ex_meta_env, DoPausePartitions ''v'' [] False),
      (ex_meta_env, DoRemoveStream (ex_stream ''v'' [''a'', ''b''] ''a'') False)]"

section \<open>Properties of the commit log\<close>

subsection \<open>The high watermark\<close>

lemma send_all_apply:
  "send_all v ws cs ch = cs ch @ replicate (count_list (map snd ws) ch) v"
proof (induction ws arbitrary: cs)
  case Nil
  then show ?case by simp
next
  case (Cons w ws)
  obtain r c where w: "w = (r, c)" by (cases w)
  show ?case
    by (simp add: w Cons.IH replicate_app_Cons_same)
qed

lemma notifyHWChange_fields:
  "hw (notifyHWChange l) = hw l"
  "hwWaiters (notifyHWChange l) = []"
  "nextChan (notifyHWChange l) = nextChan l"
  "readonly (notifyHWChange l) = readonly l"
  "segments (notifyHWChange l) = segments l"
  "chans (notifyHWChange l) ch = chans l ch @ replicate (count_list (map snd (hwWaiters l)) ch) False"
  by (simp_all add: notifyHWChange_def send_all_apply)

text \<open>
  Claim C4. \<open>SetHighWatermark\<close> only advances the high watermark: for \<open>h\<close> at or below
  the current value the log is left as it is and nothing is sent to any waiter; for
  \<open>h\<close> above it the high watermark becomes \<open>h\<close>, every registered waiter's channel
  receives \<open>false\<close> (once per registration) and the waiter map is emptied.
  \<open>OverrideHighWatermark\<close> sets the high watermark to \<open>h\<close> whatever its value was, and
  notifies in the same way.
\<close>

theorem SetHighWatermark_monotonic:
  "(h \<le> hw l \<longrightarrow> SetHighWatermark l h = l) \<and>
   (hw l < h \<longrightarrow>
      hw (SetHighWatermark l h) = h \<and> hwWaiters (SetHighWatermark l h) = [] \<and>
      (\<forall>ch. chans (SetHighWatermark l h) ch =
              chans l ch @ replicate (count_list (map snd (hwWaiters l)) ch) False)) \<and>
   hw l \<le> hw (SetHighWatermark l h) \<and>
   hw (OverrideHighWatermark l h) = h \<and> hwWaiters (OverrideHighWatermark l h) = [] \<and>
   (\<forall>ch. chans (OverrideHighWatermark l h) ch =
           chans l ch @ replicate (count_list (map snd (hwWaiters l)) ch) False)"
  by (simp add: SetHighWatermark_def OverrideHighWatermark_def notifyHWChange_fields)

theorem SetHighWatermark_monotonic_witness:
  "SetHighWatermark ex_log 2 = ex_log \<and>
   hw (SetHighWatermark ex_log 7) = 7 \<and>
   hwWaiters (SetHighWatermark ex_log 7) = [] \<and>
   chans (SetHighWatermark ex_log 7) 0 = [False] \<and>
   chans (SetHighWatermark ex_log 7) 1 = [False] \<and>
   chans (SetHighWatermark ex_log 7) 5 = [] \<and>
   hw (OverrideHighWatermark ex_log 1) = 1 \<and>
   chans (OverrideHighWatermark ex_log 1) 0 = [False]"
proof -
  have h: "hw ex_log = 3" "hwWaiters ex_log = [(1, 0), (2, 1)]" "\<And>ch. chans ex_log ch = []"
    by (simp_all add: ex_log_def)
  show ?thesis
    using SetHighWatermark_monotonic [of 2 ex_log] SetHighWatermark_monotonic [of 7 ex_log]
      SetHighWatermark_monotonic [of 1 ex_log] h
    by simp
qed

























subsection \<open>Appending to a readonly log\<close>

lemma checkAndPerformSplit_diverges_aux:
  assumes "checkAndPerformSplit env l = Some y"
  shows "\<not> (CheckSplit env (activeSegment l) \<and> split_log env l = Inl ErrSegmentExists)"
proof (rule checkAndPerformSplit.raw_induct
    [where P = "\<lambda>env l y. \<not> (CheckSplit env (activeSegment l) \<and> split_log env l = Inl ErrSegmentExists)"
       and y = y])
  fix cps :: "log_env \<Rightarrow> commitLog \<Rightarrow> ((error + bool) \<times> commitLog) option"
    and env l y
  assume ih: "\<And>env l y. cps env l = Some y \<Longrightarrow>
      \<not> (CheckSplit env (activeSegment l) \<and> split_log env l = Inl ErrSegmentExists)"
    and body: "(if \<not> CheckSplit env (activeSegment l) then Some (Inr False, l)
      else case split_log env l of
             Inl e \<Rightarrow> if e = ErrSegmentExists then cps env l else Some (Inl e, l)
           | Inr l' \<Rightarrow>
               Some (Inr True,
                     l'\<lparr>segments := butlast (segments l) @ [Seal (activeSegment l), last (segments l')]\<rparr>)) = Some y"
  show "\<not> (CheckSplit env (activeSegment l) \<and> split_log env l = Inl ErrSegmentExists)"
  proof
    assume d: "CheckSplit env (activeSegment l) \<and> split_log env l = Inl ErrSegmentExists"
    with body have "cps env l = Some y" by simp
    from ih [OF this] d show False by simp
  qed
next
  show "checkAndPerformSplit env l = Some y" by (rule assms)
qed

lemma checkAndPerformSplit_closed:
  "checkAndPerformSplit env l =
     (if \<not> CheckSplit env (activeSegment l) then Some (Inr False, l)
      else case split_log env l of
             Inl e \<Rightarrow> if e = ErrSegmentExists then None else Some (Inl e, l)
           | Inr l' \<Rightarrow>
               Some (Inr True,
                     l'\<lparr>segments := butlast (segments l) @ [Seal (activeSegment l), last (segments l')]\<rparr>))"
proof (cases "CheckSplit env (activeSegment l) \<and> split_log env l = Inl ErrSegmentExists")
  case True
  then have "checkAndPerformSplit env l = None"
    using checkAndPerformSplit_diverges_aux [of env l] by (cases "checkAndPerformSplit env l") auto
  with True show ?thesis by simp
next
  case False
  then show ?thesis
    by (subst checkAndPerformSplit.simps) (auto split: sum.splits)
qed

lemma split_log_readonly:
  "split_log env (l\<lparr>readonly := b\<rparr>) =
     (case split_log env l of Inl e \<Rightarrow> Inl e | Inr l' \<Rightarrow> Inr (l'\<lparr>readonly := b\<rparr>))"
  by (simp add: split_log_def Let_def NewestOffset_def activeSegment_def split: sum.splits)

lemma checkAndPerformSplit_readonly:
  "checkAndPerformSplit env (l\<lparr>readonly := b\<rparr>) =
     map_option (\<lambda>(r, l'). (r, l'\<lparr>readonly := b\<rparr>)) (checkAndPerformSplit env l)"
  by (simp add: checkAndPerformSplit_closed split_log_readonly activeSegment_def
      split: sum.splits)

lemma append_log_readonly:
  "append_log env (l\<lparr>readonly := b\<rparr>) ms =
     (case append_log env l ms of (r, l') \<Rightarrow> (r, l'\<lparr>readonly := b\<rparr>))"
  by (simp add: append_log_def Let_def activeSegment_def setActiveSegment_def
      split: sum.splits prod.splits option.splits)

lemma AppendMessageSet_readonly:
  "AppendMessageSet env (l\<lparr>readonly := b\<rparr>) ms =
     map_option (\<lambda>(r, l'). (r, l'\<lparr>readonly := b\<rparr>)) (AppendMessageSet env l ms)"
  by (cases "checkAndPerformSplit env l")
     (auto simp: AppendMessageSet_def checkAndPerformSplit_readonly append_log_readonly
       split: sum.splits prod.splits)


lemma assign_epochs_no_fault:
  "io_fault env EpochCheckpoint = None \<Longrightarrow> lastEpoch = cache_LastLeaderEpoch c \<Longrightarrow>
   fst (assign_epochs env c lastEpoch ms) = None"
proof (induction ms arbitrary: c lastEpoch)
  case Nil
  then show ?case by simp
next
  case (Cons m ms)
  show ?case
  proof (cases "LeaderEpoch m > lastEpoch")
    case True
    let ?c = "c @ [\<lparr>leaderEpoch = LeaderEpoch m, startOffset = Offset m\<rparr>]"
    have a: "cache_Assign env c (LeaderEpoch m) (Offset m) = Inr ?c"
      using True Cons.prems by (simp add: cache_Assign_def)
    have "LeaderEpoch m = cache_LastLeaderEpoch ?c" by (simp add: cache_LastLeaderEpoch_def)
    from Cons.IH [OF Cons.prems(1) this] a True show ?thesis by simp
  next
    case False
    with Cons.IH [OF Cons.prems] show ?thesis by simp
  qed
qed

lemma append_log_no_fault:
  assumes nf: "io_fault env = (\<lambda>c. None)" and ns: "\<not> sealed (activeSegment l)"
  shows "\<exists>l'. append_log env l ms = (Inr (map Offset ms), l') \<and> readonly l' = readonly l \<and>
           contents (activeSegment l') = contents (activeSegment l) @ ms"
proof -
  let ?seg = "(activeSegment l)\<lparr>contents := contents (activeSegment l) @ ms,
      nextOffset := (if ms = [] then nextOffset (activeSegment l) else Offset (last ms) + 1)\<rparr>"
  let ?l1 = "setActiveSegment l ?seg"
  have w: "WriteMessageSet env (activeSegment l) ms = Inr ?seg"
    using nf ns by (simp add: WriteMessageSet_def)
  obtain r c where ae: "assign_epochs env (leaderEpochCache ?l1)
      (cache_LastLeaderEpoch (leaderEpochCache ?l1)) ms = (r, c)" by force
  have "fst (assign_epochs env (leaderEpochCache ?l1)
      (cache_LastLeaderEpoch (leaderEpochCache ?l1)) ms) = None"
    by (rule assign_epochs_no_fault) (simp_all add: nf)
  with ae have r: "r = None" by simp
  have "append_log env l ms = (Inr (map Offset ms), ?l1\<lparr>leaderEpochCache := c\<rparr>)"
    using w ae r by (simp add: append_log_def Let_def)
  moreover have "contents (activeSegment (?l1\<lparr>leaderEpochCache := c\<rparr>)) = contents (activeSegment l) @ ms"
    by (simp add: activeSegment_def setActiveSegment_def)
  moreover have "readonly (?l1\<lparr>leaderEpochCache := c\<rparr>) = readonly l"
    by (simp add: setActiveSegment_def)
  ultimately show ?thesis by blast
qed

lemma AppendMessageSet_no_fault:
  assumes nf: "io_fault env = (\<lambda>c. None)"
    and s: "CheckSplit env (activeSegment l) \<or> \<not> sealed (activeSegment l)"
  shows "\<exists>l'. AppendMessageSet env l ms = Some (Inr (map Offset ms), l') \<and>
           readonly l' = readonly l \<and>
           contents (activeSegment l') =
             (if CheckSplit env (activeSegment l) then ms else contents (activeSegment l) @ ms)"
proof (cases "CheckSplit env (activeSegment l)")
  case False
  then have c: "checkAndPerformSplit env l = Some (Inr False, l)"
    by (simp add: checkAndPerformSplit_closed)
  from s False have "\<not> sealed (activeSegment l)" by simp
  from append_log_no_fault [OF nf this, of ms] c False show ?thesis
    by (auto simp: AppendMessageSet_def)
next
  case True
  let ?new = "\<lparr>BaseOffset = NewestOffset l + 1, nextOffset = NewestOffset l + 1,
               contents = [], sealed = False\<rparr>"
  let ?l1 = "l\<lparr>segments := butlast (segments l) @ [Seal (activeSegment l), ?new]\<rparr>"
  have sp: "split_log env l = Inr (l\<lparr>segments := segments l @ [?new]\<rparr>)"
    using nf by (simp add: split_log_def Let_def newSegment_def)
  have c: "checkAndPerformSplit env l = Some (Inr True, ?l1)"
    using True sp by (simp add: checkAndPerformSplit_closed)
  have a: "activeSegment ?l1 = ?new" by (simp add: activeSegment_def)
  then have "\<not> sealed (activeSegment ?l1)" by simp
  from append_log_no_fault [OF nf this, of ms] c True a show ?thesis
    by (auto simp: AppendMessageSet_def)
qed

text \<open>
  Claim C3. On a readonly log \<open>Append\<close> returns \<open>ErrCommitLogReadonly\<close> and the log is
  unchanged. \<open>AppendMessageSet\<close> never reads the readonly flag: its result on a log is
  its result on the same log with the flag set either way, the flag apart; and on a
  readonly log whose file operations succeed it returns the offsets of the message set,
  which is then the tail of the active segment.
\<close>

theorem Append_readonly_AppendMessageSet_open:
  "(IsReadonly l \<longrightarrow> Append env l msgs = Some (Inl ErrCommitLogReadonly, l)) \<and>
   AppendMessageSet env (l\<lparr>readonly := b\<rparr>) ms =
     map_option (\<lambda>(r, l'). (r, l'\<lparr>readonly := b\<rparr>)) (AppendMessageSet env l ms) \<and>
   (io_fault env = (\<lambda>c. None) \<and> (CheckSplit env (activeSegment l) \<or> \<not> sealed (activeSegment l)) \<longrightarrow>
      (\<exists>l'. AppendMessageSet env (l\<lparr>readonly := True\<rparr>) ms = Some (Inr (map Offset ms), l') \<and>
            IsReadonly l' \<and>
            contents (activeSegment l') =
              (if CheckSplit env (activeSegment l) then ms else contents (activeSegment l) @ ms)))"
proof -
  have 1: "IsReadonly l \<longrightarrow> Append env l msgs = Some (Inl ErrCommitLogReadonly, l)"
    by (simp add: Append_def)
  have 2: "AppendMessageSet env (l\<lparr>readonly := b\<rparr>) ms =
     map_option (\<lambda>(r, l'). (r, l'\<lparr>readonly := b\<rparr>)) (AppendMessageSet env l ms)"
    by (rule AppendMessageSet_readonly)
  have 3: "\<exists>l'. AppendMessageSet env (l\<lparr>readonly := True\<rparr>) ms = Some (Inr (map Offset ms), l') \<and>
            IsReadonly l' \<and>
            contents (activeSegment l') =
              (if CheckSplit env (activeSegment l) then ms else contents (activeSegment l) @ ms)"
    if h: "io_fault env = (\<lambda>c. None)" "CheckSplit env (activeSegment l) \<or> \<not> sealed (activeSegment l)"
  proof -
    have a: "activeSegment (l\<lparr>readonly := True\<rparr>) = activeSegment l"
      by (simp add: activeSegment_def)
    from AppendMessageSet_no_fault [of env "l\<lparr>readonly := True\<rparr>" ms] h a
    show ?thesis by (auto simp: IsReadonly_def)
  qed
  from 1 2 3 show ?thesis by blast
qed

theorem Append_readonly_AppendMessageSet_open_witness:
  "IsReadonly (ex_log\<lparr>readonly := True\<rparr>) \<and>
   Append ex_env (ex_log\<lparr>readonly := True\<rparr>) [ex_msg 0 2] =
     Some (Inl ErrCommitLogReadonly, ex_log\<lparr>readonly := True\<rparr>) \<and>
   fst (the (AppendMessageSet ex_env (ex_log\<lparr>readonly := True\<rparr>) [ex_msg 6 2])) = Inr [6] \<and>
   contents (activeSegment (snd (the (AppendMessageSet ex_env (ex_log\<lparr>readonly := True\<rparr>) [ex_msg 6 2]))))
     = [ex_msg 3 1, ex_msg 4 2, ex_msg 5 2, ex_msg 6 2]"
proof -
  have r: "IsReadonly (ex_log\<lparr>readonly := True\<rparr>)" by (simp add: IsReadonly_def)
  have nf: "io_fault ex_env = (\<lambda>c. None)" by (simp add: ex_env_def)
  have ns: "\<not> CheckSplit ex_env (activeSegment ex_log)" "\<not> sealed (activeSegment ex_log)"
    by (simp_all add: ex_env_def activeSegment_def ex_log_def ex_seg1_def)
  have c: "contents (activeSegment ex_log) = [ex_msg 3 1, ex_msg 4 2, ex_msg 5 2]"
    by (simp add: activeSegment_def ex_log_def ex_seg1_def)
  from Append_readonly_AppendMessageSet_open
    [of "ex_log\<lparr>readonly := True\<rparr>" ex_env "[ex_msg 0 2]" True "[ex_msg 6 2]"] r
  have a: "Append ex_env (ex_log\<lparr>readonly := True\<rparr>) [ex_msg 0 2] =
     Some (Inl ErrCommitLogReadonly, ex_log\<lparr>readonly := True\<rparr>)" by blast
  have "\<exists>l'. AppendMessageSet ex_env (ex_log\<lparr>readonly := True\<rparr>) [ex_msg 6 2] =
        Some (Inr (map Offset [ex_msg 6 2]), l') \<and> IsReadonly l' \<and>
        contents (activeSegment l') =
          (if CheckSplit ex_env (activeSegment ex_log) then [ex_msg 6 2]
           else contents (activeSegment ex_log) @ [ex_msg 6 2])"
    using Append_readonly_AppendMessageSet_open [of ex_log ex_env "[]" True "[ex_msg 6 2]"] nf ns
    by blast
  then obtain l' where "AppendMessageSet ex_env (ex_log\<lparr>readonly := True\<rparr>) [ex_msg 6 2] =
      Some (Inr (map Offset [ex_msg 6 2]), l')"
     "contents (activeSegment l') = [ex_msg 3 1, ex_msg 4 2, ex_msg 5 2, ex_msg 6 2]"
    using ns c by auto
  with r a show ?thesis by (simp add: ex_msg_def)
qed

subsection \<open>Leader epoch offsets and truncation\<close>

lemma LastOffsetForLeaderEpoch_cases:
  fixes l requested
  defines "c \<equiv> leaderEpochCache l"
  shows
  "(requested = cache_LastLeaderEpoch c \<or> (\<forall>e\<in>set c. leaderEpoch e \<le> requested) \<longrightarrow>
      LastOffsetForLeaderEpoch l requested = NewestOffset l) \<and>
   (requested \<noteq> cache_LastLeaderEpoch c \<and> (\<exists>e\<in>set c. requested < leaderEpoch e) \<longrightarrow>
      (\<exists>e\<in>set c. requested < leaderEpoch e \<and>
         (\<forall>e'\<in>set c. requested < leaderEpoch e' \<longrightarrow> leaderEpoch e \<le> leaderEpoch e') \<and>
         (startOffset e \<noteq> - 1 \<longrightarrow> LastOffsetForLeaderEpoch l requested = startOffset e)))"
proof -
  let ?g = "filter (\<lambda>e. requested < leaderEpoch e) c"
  have a: "LastOffsetForLeaderEpoch l requested = NewestOffset l"
    if "requested = cache_LastLeaderEpoch c \<or> (\<forall>e\<in>set c. leaderEpoch e \<le> requested)"
  proof -
    from that have "requested = cache_LastLeaderEpoch c \<or> ?g = []"
      by (auto simp: filter_empty_conv not_less)
    then have "cache_LastOffsetForLeaderEpoch c requested = - 1"
      by (auto simp: cache_LastOffsetForLeaderEpoch_def)
    then show ?thesis
      by (simp add: LastOffsetForLeaderEpoch_def c_def NewestOffset_def)
  qed
  have b: "\<exists>e\<in>set c. requested < leaderEpoch e \<and>
         (\<forall>e'\<in>set c. requested < leaderEpoch e' \<longrightarrow> leaderEpoch e \<le> leaderEpoch e') \<and>
         (startOffset e \<noteq> - 1 \<longrightarrow> LastOffsetForLeaderEpoch l requested = startOffset e)"
    if h: "requested \<noteq> cache_LastLeaderEpoch c" "\<exists>e\<in>set c. requested < leaderEpoch e"
  proof -
    from h(2) have ne: "?g \<noteq> []" by (auto simp: filter_empty_conv)
    let ?e = "arg_min_list leaderEpoch ?g"
    have mem: "?e \<in> set ?g" using ne by (rule arg_min_list_in)
    have least: "leaderEpoch ?e \<le> leaderEpoch e'" if "e' \<in> set ?g" for e'
      using f_arg_min_list_f [OF ne, of leaderEpoch] that by simp
    have v: "cache_LastOffsetForLeaderEpoch c requested = startOffset ?e"
      using h(1) ne by (simp add: cache_LastOffsetForLeaderEpoch_def)
    have r: "startOffset ?e \<noteq> - 1 \<longrightarrow> LastOffsetForLeaderEpoch l requested = startOffset ?e"
      using v by (simp add: LastOffsetForLeaderEpoch_def c_def)
    from mem least r show ?thesis by auto
  qed
  from a b show ?thesis by blast
qed





















text \<open>
  Claim C2, as amended. When the requested epoch is the last cached epoch, or no cached
  epoch is strictly greater, \<open>LastOffsetForLeaderEpoch\<close> returns
  \<open>NewestOffset()\<close>, that is \<open>activeSegment.NextOffset() - 1\<close>: the offset of the last
  record, not the offset after it. Otherwise it returns the start offset of the least
  cached epoch strictly greater than the requested one, when that start offset is not
  the sentinel \<open>-1\<close>.
\<close>

theorem LastOffsetForLeaderEpoch_newest:
  "(requested = cache_LastLeaderEpoch (leaderEpochCache l) \<or>
    (\<forall>e\<in>set (leaderEpochCache l). leaderEpoch e \<le> requested) \<longrightarrow>
      LastOffsetForLeaderEpoch l requested = NewestOffset l) \<and>
   (requested \<noteq> cache_LastLeaderEpoch (leaderEpochCache l) \<and>
    (\<exists>e\<in>set (leaderEpochCache l). requested < leaderEpoch e) \<longrightarrow>
      (\<exists>e\<in>set (leaderEpochCache l). requested < leaderEpoch e \<and>
         (\<forall>e'\<in>set (leaderEpochCache l). requested < leaderEpoch e' \<longrightarrow> leaderEpoch e \<le> leaderEpoch e') \<and>
         (startOffset e \<noteq> - 1 \<longrightarrow> LastOffsetForLeaderEpoch l requested = startOffset e)))"
  using LastOffsetForLeaderEpoch_cases [of requested l] by simp

theorem LastOffsetForLeaderEpoch_newest_witness:
  "cache_LastLeaderEpoch (leaderEpochCache ex_log) = 2 \<and>
   LastOffsetForLeaderEpoch ex_log 2 = NewestOffset ex_log \<and>
   LastOffsetForLeaderEpoch ex_log 7 = NewestOffset ex_log \<and>
   NewestOffset ex_log = 5 \<and>
   LastOffsetForLeaderEpoch ex_log 1 = 4 \<and>
   LastOffsetForLeaderEpoch ex_log 0 = 0"
proof -
  have c: "leaderEpochCache ex_log =
      [\<lparr>leaderEpoch = 1, startOffset = 0\<rparr>, \<lparr>leaderEpoch = 2, startOffset = 4\<rparr>]"
    by (simp add: ex_log_def)
  have l: "cache_LastLeaderEpoch (leaderEpochCache ex_log) = 2"
    by (simp add: c cache_LastLeaderEpoch_def)
  have n: "NewestOffset ex_log = 5"
    by (simp add: NewestOffset_def activeSegment_def ex_log_def ex_seg1_def NextOffset_def)
  have a: "LastOffsetForLeaderEpoch ex_log 2 = NewestOffset ex_log"
    using LastOffsetForLeaderEpoch_newest [of 2 ex_log] l by simp
  have b: "LastOffsetForLeaderEpoch ex_log 7 = NewestOffset ex_log"
    using LastOffsetForLeaderEpoch_newest [of 7 ex_log] by (simp add: c)
  have d: "LastOffsetForLeaderEpoch ex_log 1 = 4"
    using LastOffsetForLeaderEpoch_newest [of 1 ex_log] l by (auto simp: c)
  have e: "LastOffsetForLeaderEpoch ex_log 0 = 0"
    using LastOffsetForLeaderEpoch_newest [of 0 ex_log] l by (auto simp: c)
  from l a b n d e show ?thesis by blast
qed

text \<open>
  Claim C2 as stated fails: in the concrete log the last cached epoch is 2 and the last
  record has offset 5; asked for epoch 2 the cache signals \<open>-1\<close> and the log answers 5,
  where the claim's log-end offset \<open>NewestOffset() + 1\<close> is 6.
\<close>

theorem LastOffsetForLeaderEpoch_LEO_counterexample:
  "cache_LastOffsetForLeaderEpoch (leaderEpochCache ex_log) 2 = - 1 \<and>
   LastOffsetForLeaderEpoch ex_log 2 = 5 \<and>
   NewestOffset ex_log + 1 = 6 \<and>
   LastOffsetForLeaderEpoch ex_log 2 \<noteq> NewestOffset ex_log + 1"
  by (simp add: LastOffsetForLeaderEpoch_def cache_LastOffsetForLeaderEpoch_def
      cache_LastLeaderEpoch_def NewestOffset_def activeSegment_def NextOffset_def
      ex_log_def ex_seg1_def)

section \<open>Properties of the metadata API\<close>

subsection \<open>Replica placement\<close>

lemma take_drop_sorted_le:
  assumes "sorted (map f xs)" and "a \<in> set (take n xs)" and "b \<in> set (drop n xs)"
  shows "f a \<le> f b"
proof -
  have "sorted (map f (take n xs) @ map f (drop n xs))"
    using assms(1) by (simp add: map_append [symmetric] del: map_append)
  then show ?thesis using assms(2,3) by (auto simp: sorted_append)
qed

lemma selectPartitionLeader_Some:
  assumes "selectPartitionLeader m rs = Some (leader, rs')"
  shows "rs' = sort_key (load_of (brokerLeaderLoad m)) rs \<and> rs' \<noteq> [] \<and> leader = hd rs' \<and>
         leader \<in> set rs \<and>
         (\<forall>r\<in>set rs. load_of (brokerLeaderLoad m) leader \<le> load_of (brokerLeaderLoad m) r)"
proof -
  let ?f = "load_of (brokerLeaderLoad m)"
  from assms obtain tl where c: "sort_key ?f rs = leader # tl" and rs': "rs' = sort_key ?f rs"
    by (auto simp: selectPartitionLeader_def Let_def split: list.splits)
  from c rs' have ne: "rs' \<noteq> []" and l: "leader = hd rs'" by simp_all
  from ne l have mem: "leader \<in> set rs'" by simp
  then have mem': "leader \<in> set rs" by (simp add: rs')
  have s: "sorted (map ?f rs')" by (simp add: rs')
  have "?f leader \<le> ?f r" if "r \<in> set rs" for r
  proof -
    from that have "r \<in> set rs'" by (simp add: rs')
    with ne l s show ?thesis by (cases rs') auto
  qed
  with rs' ne l mem' show ?thesis by blast
qed

lemma selectPartitionLeader_nonempty:
  "rs \<noteq> [] \<Longrightarrow> \<exists>leader rs'. selectPartitionLeader m rs = Some (leader, rs')"
proof -
  assume "rs \<noteq> []"
  then have "sort_key (load_of (brokerLeaderLoad m)) rs \<noteq> []"
    by (metis length_sort length_0_conv)
  then show ?thesis
    by (auto simp: selectPartitionLeader_def Let_def split: list.splits)
qed

text \<open>
  Claim C8. With the cluster's server ids at hand, placing a partition whose replication
  factor is \<open>-1\<close> (all servers) or between 1 and the cluster size succeeds, and a
  placement that succeeds has these properties. The servers are ranked by ascending
  partition load, stably (the ranking is a permutation of the ids, sorted by load, that
  keeps the ids of equal load in their order); \<open>getPartitionReplicas\<close> returns the first
  \<open>n\<close> of the ranking, whose loads are at most those of the servers left out; the
  partition's replicas and ISR are these \<open>n\<close> servers; and the leader is one of them, of
  the lowest leader load among them, the first such in the stable ranking by leader load.
\<close>

theorem replica_placement:
  assumes ids: "getClusterServerIDs env = Inr ids"
  shows
    "(ReplicationFactor p = - 1 \<and> ids \<noteq> [] \<or>
      0 < ReplicationFactor p \<and> ReplicationFactor p \<le> int (length ids) \<longrightarrow>
        (\<exists>p'. placePartition env m p = Some (Inr p'))) \<and>
     (\<forall>p'. placePartition env m p = Some (Inr p') \<longrightarrow>
        (\<exists>n rank.
           n = (if ReplicationFactor p = - 1 then length ids else nat (ReplicationFactor p)) \<and>
           0 < n \<and> n \<le> length ids \<and>
           mset rank = mset ids \<and>
           sorted (map (load_of (brokerPartitionLoad m)) rank) \<and>
           (\<forall>k. filter (\<lambda>b. load_of (brokerPartitionLoad m) b = k) rank =
                filter (\<lambda>b. load_of (brokerPartitionLoad m) b = k) ids) \<and>
           getPartitionReplicas env m (ReplicationFactor p) = Inr (take n rank) \<and>
           (\<forall>a\<in>set (take n rank). \<forall>b\<in>set (drop n rank).
              load_of (brokerPartitionLoad m) a \<le> load_of (brokerPartitionLoad m) b) \<and>
           mset (Replicas p') = mset (take n rank) \<and> Isr p' = Replicas p' \<and>
           Leader p' \<in> set (take n rank) \<and>
           (\<forall>r\<in>set (take n rank).
              load_of (brokerLeaderLoad m) (Leader p') \<le> load_of (brokerLeaderLoad m) r) \<and>
           Leader p' = hd (sort_key (load_of (brokerLeaderLoad m)) (take n rank))))"
proof -
  let ?PL = "load_of (brokerPartitionLoad m)"
  let ?LL = "load_of (brokerLeaderLoad m)"
  let ?rf = "ReplicationFactor p"
  let ?n = "if ?rf = - 1 then length ids else nat ?rf"
  let ?rank = "sort_key ?PL ids"
  have total: "\<exists>p'. placePartition env m p = Some (Inr p')"
    if v: "?rf = - 1 \<and> ids \<noteq> [] \<or> 0 < ?rf \<and> ?rf \<le> int (length ids)"
  proof -
    from v have n: "0 < ?n" "?n \<le> length ids" by auto
    from v have g: "getPartitionReplicas env m ?rf = Inr (take ?n ?rank)"
      by (auto simp: getPartitionReplicas_def ids Let_def maxReplicationFactor_def)
    have "length ?rank = length ids" by simp
    with n have "length (take ?n ?rank) = ?n" by (simp del: length_sort)
    with n have "take ?n ?rank \<noteq> []" by (metis length_0_conv less_numeral_extra(3))
    from selectPartitionLeader_nonempty [OF this, of m] g show ?thesis
      by (auto simp: placePartition_def)
  qed
  have sel: "\<exists>n rank.
           n = ?n \<and> 0 < n \<and> n \<le> length ids \<and> mset rank = mset ids \<and>
           sorted (map ?PL rank) \<and>
           (\<forall>k. filter (\<lambda>b. ?PL b = k) rank = filter (\<lambda>b. ?PL b = k) ids) \<and>
           getPartitionReplicas env m ?rf = Inr (take n rank) \<and>
           (\<forall>a\<in>set (take n rank). \<forall>b\<in>set (drop n rank). ?PL a \<le> ?PL b) \<and>
           mset (Replicas p') = mset (take n rank) \<and> Isr p' = Replicas p' \<and>
           Leader p' \<in> set (take n rank) \<and>
           (\<forall>r\<in>set (take n rank). ?LL (Leader p') \<le> ?LL r) \<and>
           Leader p' = hd (sort_key ?LL (take n rank))"
    if pl: "placePartition env m p = Some (Inr p')" for p'
  proof -
    define n where "n = ?n"
    define rank where "rank = ?rank"
    from pl obtain reps leader reps' where
      g: "getPartitionReplicas env m ?rf = Inr reps"
      and s: "selectPartitionLeader m reps = Some (leader, reps')"
      and p': "p' = p\<lparr>Replicas := reps', Isr := reps', Leader := leader\<rparr>"
      by (auto simp: placePartition_def split: sum.splits option.splits)
    from g have n: "0 < n" "n \<le> length ids" and reps: "reps = take n rank"
      unfolding n_def rank_def
      by (auto simp: getPartitionReplicas_def ids Let_def maxReplicationFactor_def
          split: if_splits)
    note sl = selectPartitionLeader_Some [OF s]
    have 0: "n = ?n" by (rule n_def)
    have 1: "mset rank = mset ids" by (simp add: rank_def)
    have 2: "sorted (map ?PL rank)" by (simp add: rank_def)
    have 3: "\<forall>k. filter (\<lambda>b. ?PL b = k) rank = filter (\<lambda>b. ?PL b = k) ids"
      by (simp add: rank_def sort_key_stable)
    have 4: "\<forall>a\<in>set (take n rank). \<forall>b\<in>set (drop n rank). ?PL a \<le> ?PL b"
      using take_drop_sorted_le [OF 2] by blast
    from sl have l1: "reps' = sort_key ?LL reps" and l2: "leader = hd reps'"
      and l3: "leader \<in> set reps" and l4: "\<forall>r\<in>set reps. ?LL leader \<le> ?LL r" by blast+
    have pl': "Replicas p' = reps'" "Isr p' = reps'" "Leader p' = leader" by (simp_all add: p')
    have 5: "mset (Replicas p') = mset (take n rank)" unfolding pl' l1 reps by simp
    have 6: "Isr p' = Replicas p'" unfolding pl' ..
    have 7: "Leader p' \<in> set (take n rank)" unfolding pl' using l3 reps by simp
    have 8: "\<forall>r\<in>set (take n rank). ?LL (Leader p') \<le> ?LL r" unfolding pl' using l4 reps by simp
    have 9: "Leader p' = hd (sort_key ?LL (take n rank))" unfolding pl' using l1 l2 reps by simp
    have 10: "getPartitionReplicas env m ?rf = Inr (take n rank)" using g reps by simp
    from 0 n 1 2 3 4 5 6 7 8 9 10 show ?thesis by blast
  qed
  from total sel show ?thesis by blast
qed


lemma ex_meta_loads:
  "load_of (brokerPartitionLoad ex_meta) ''a'' = 2"
  "load_of (brokerPartitionLoad ex_meta) ''b'' = 2"
  "load_of (brokerPartitionLoad ex_meta) ''c'' = 1"
  "load_of (brokerLeaderLoad ex_meta) ''a'' = 2"
  "load_of (brokerLeaderLoad ex_meta) ''b'' = 1"
  "load_of (brokerLeaderLoad ex_meta) ''c'' = 0"
  by (simp_all add: ex_meta_def load_of_def)

theorem replica_placement_witness:
  "getClusterServerIDs ex_meta_env = Inr [''a'', ''b'', ''c''] \<and>
   getPartitionReplicas ex_meta_env ex_meta 2 = Inr [''c'', ''a''] \<and>
   placePartition ex_meta_env ex_meta ((ex_partition ''v'' [] [])\<lparr>ReplicationFactor := 2\<rparr>) =
     Some (Inr ((ex_partition ''v'' [] [])\<lparr>ReplicationFactor := 2, Replicas := [''c'', ''a''],
                  Isr := [''c'', ''a''], Leader := ''c''\<rparr>)) \<and>
   load_of (brokerLeaderLoad ex_meta) ''c'' \<le> load_of (brokerLeaderLoad ex_meta) ''a''"
proof -
  let ?p = "(ex_partition ''v'' [] [])\<lparr>ReplicationFactor := 2\<rparr>"
  let ?p' = "(ex_partition ''v'' [] [])\<lparr>ReplicationFactor := 2, Replicas := [''c'', ''a''],
                  Isr := [''c'', ''a''], Leader := ''c''\<rparr>"
  have ids: "getClusterServerIDs ex_meta_env = Inr [''a'', ''b'', ''c'']"
    by (simp add: ex_meta_env_def)
  have g: "getPartitionReplicas ex_meta_env ex_meta 2 = Inr [''c'', ''a'']"
    by (simp add: getPartitionReplicas_def ids maxReplicationFactor_def ex_meta_loads
        sort_key_def numeral_2_eq_2)
  have pl: "placePartition ex_meta_env ex_meta ?p = Some (Inr ?p')"
    by (simp add: placePartition_def g ex_partition_def selectPartitionLeader_def
        sort_key_def ex_meta_loads)
  from replica_placement [OF ids, of ?p ex_meta] pl
  obtain n rank where "getPartitionReplicas ex_meta_env ex_meta (ReplicationFactor ?p) = Inr (take n rank)"
    and "\<forall>r\<in>set (take n rank).
              load_of (brokerLeaderLoad ex_meta) (Leader ?p') \<le> load_of (brokerLeaderLoad ex_meta) r"
    by blast
  with g have "load_of (brokerLeaderLoad ex_meta) ''c'' \<le> load_of (brokerLeaderLoad ex_meta) ''a''"
    by (auto simp: ex_partition_def dest: sym)
  with ids g pl show ?thesis by blast
qed

subsection \<open>Leader reports\<close>

lemma go_half:
  fixes c s :: int
  assumes "1 \<le> c" and "- 1 \<le> s"
  shows "(c > s sdiv 2) = (2 * c > s)"
proof (cases "s < 0")
  case True
  with assms have "s = - 1" by simp
  with assms show ?thesis by (simp add: signed_divide_int_def)
next
  case False
  then have "s sdiv 2 = s div 2" by (simp add: signed_divide_int_def sgn_if)
  then show ?thesis by auto
qed

lemma fcard_finsert_pos: "1 \<le> int (fcard (finsert x A))"
proof -
  have "fcard (finsert x A) \<noteq> 0" by (metis fcard_0_eq finsert_not_fempty)
  then show ?thesis by linarith
qed

lemma addWitness_cases:
  "addWitness env m l p replica =
     (if int (ISRSize p) - 1 < 2 * int (fcard (finsert replica (witnessReplicas l)))
      then (electNewPartitionLeader env m p,
            l\<lparr>witnessReplicas := finsert replica (witnessReplicas l),
              timer := map_option (\<lambda>t. TimerStopped) (timer l)\<rparr>)
      else ((None, None),
            l\<lparr>witnessReplicas := finsert replica (witnessReplicas l), timer := Some TimerRunning\<rparr>))"
proof -
  have "(int (fcard (finsert replica (witnessReplicas l))) > (int (ISRSize p) - 1) sdiv 2)
      = (2 * int (fcard (finsert replica (witnessReplicas l))) > int (ISRSize p) - 1)"
    by (rule go_half) (rule fcard_finsert_pos, simp)
  then show ?thesis
    by (simp add: addWitness_def Let_def map_option_case)
qed

lemma elect_no_candidates:
  "filter (\<lambda>c. c \<noteq> Leader p) (Isr p) = [] \<Longrightarrow>
   electNewPartitionLeader env m p = (Some (Status FailedPrecondition ''No ISR candidates''), None)"
  by (simp add: electNewPartitionLeader_def Let_def GetISR_def GetLeader_def)

lemma elect_op:
  assumes "electNewPartitionLeader env m p = (st, Some rop)"
  shows "\<exists>leader. rop = OpChangeLeader (Stream p) (PartitionId p) leader \<and>
           leader \<in> set (Isr p) \<and> leader \<noteq> Leader p \<and>
           (\<forall>c\<in>set (Isr p). c \<noteq> Leader p \<longrightarrow>
              load_of (brokerLeaderLoad m) leader \<le> load_of (brokerLeaderLoad m) c)"
proof -
  let ?cs = "filter (\<lambda>c. c \<noteq> Leader p) (Isr p)"
  from assms obtain leader cs' where s: "selectPartitionLeader m ?cs = Some (leader, cs')"
    and rop: "rop = OpChangeLeader (Stream p) (PartitionId p) leader"
    by (auto simp: electNewPartitionLeader_def Let_def GetISR_def GetLeader_def
        split: if_splits option.splits raft_outcome.splits)
  from selectPartitionLeader_Some [OF s] rop show ?thesis by auto
qed

lemma elect_proposes:
  assumes "1 < length (Isr p)" and "filter (\<lambda>c. c \<noteq> Leader p) (Isr p) \<noteq> []"
  shows "\<exists>leader. snd (electNewPartitionLeader env m p) =
           Some (OpChangeLeader (Stream p) (PartitionId p) leader)"
proof -
  from selectPartitionLeader_nonempty [OF assms(2), of m] obtain leader cs' where
    "selectPartitionLeader m (filter (\<lambda>c. c \<noteq> Leader p) (Isr p)) = Some (leader, cs')" by blast
  with assms show ?thesis
    by (auto simp: electNewPartitionLeader_def Let_def GetISR_def GetLeader_def
        split: raft_outcome.splits)
qed

lemma addWitness_effect:
  assumes r: "addWitness env m l p replica = ((st, rop), l')"
  shows
    "witnessReplicas l' = finsert replica (witnessReplicas l) \<and>
     (int (ISRSize p) - 1 < 2 * int (fcard (witnessReplicas l')) \<longrightarrow>
        (st, rop) = electNewPartitionLeader env m p \<and>
        timer l' = map_option (\<lambda>t. TimerStopped) (timer l) \<and>
        (filter (\<lambda>c. c \<noteq> Leader p) (Isr p) = [] \<longrightarrow>
           st = Some (Status FailedPrecondition ''No ISR candidates'') \<and> rop = None) \<and>
        (1 < length (Isr p) \<and> filter (\<lambda>c. c \<noteq> Leader p) (Isr p) \<noteq> [] \<longrightarrow> rop \<noteq> None) \<and>
        (\<forall>x. rop = Some x \<longrightarrow>
           (\<exists>leader. x = OpChangeLeader (Stream p) (PartitionId p) leader \<and>
              leader \<in> set (Isr p) \<and> leader \<noteq> Leader p \<and>
              (\<forall>c\<in>set (Isr p). c \<noteq> Leader p \<longrightarrow>
                 load_of (brokerLeaderLoad m) leader \<le> load_of (brokerLeaderLoad m) c)))) \<and>
     (2 * int (fcard (witnessReplicas l')) \<le> int (ISRSize p) - 1 \<longrightarrow>
        st = None \<and> rop = None \<and> timer l' = Some TimerRunning) \<and>
     (\<forall>k. map_of (leaderReports (leaderReportExpired m k)) k = None)"
proof -
  let ?W = "finsert replica (witnessReplicas l)"
  have w: "witnessReplicas l' = ?W" using r by (auto simp: addWitness_cases split: if_splits)
  have q: "(st, rop) = electNewPartitionLeader env m p \<and>
        timer l' = map_option (\<lambda>t. TimerStopped) (timer l) \<and>
        (filter (\<lambda>c. c \<noteq> Leader p) (Isr p) = [] \<longrightarrow>
           st = Some (Status FailedPrecondition ''No ISR candidates'') \<and> rop = None) \<and>
        (1 < length (Isr p) \<and> filter (\<lambda>c. c \<noteq> Leader p) (Isr p) \<noteq> [] \<longrightarrow> rop \<noteq> None) \<and>
        (\<forall>x. rop = Some x \<longrightarrow>
           (\<exists>leader. x = OpChangeLeader (Stream p) (PartitionId p) leader \<and>
              leader \<in> set (Isr p) \<and> leader \<noteq> Leader p \<and>
              (\<forall>c\<in>set (Isr p). c \<noteq> Leader p \<longrightarrow>
                 load_of (brokerLeaderLoad m) leader \<le> load_of (brokerLeaderLoad m) c)))"
    if h: "int (ISRSize p) - 1 < 2 * int (fcard (witnessReplicas l'))"
  proof -
    from r h w have e: "electNewPartitionLeader env m p = (st, rop)"
      and t: "timer l' = map_option (\<lambda>t. TimerStopped) (timer l)"
      by (auto simp: addWitness_cases split: if_splits)
    have a: "filter (\<lambda>c. c \<noteq> Leader p) (Isr p) = [] \<longrightarrow>
           st = Some (Status FailedPrecondition ''No ISR candidates'') \<and> rop = None"
      using elect_no_candidates [of p env m] e by auto
    have b: "1 < length (Isr p) \<and> filter (\<lambda>c. c \<noteq> Leader p) (Isr p) \<noteq> [] \<longrightarrow> rop \<noteq> None"
      using elect_proposes [of p env m] e by auto
    have c: "\<forall>x. rop = Some x \<longrightarrow>
           (\<exists>leader. x = OpChangeLeader (Stream p) (PartitionId p) leader \<and>
              leader \<in> set (Isr p) \<and> leader \<noteq> Leader p \<and>
              (\<forall>c\<in>set (Isr p). c \<noteq> Leader p \<longrightarrow>
                 load_of (brokerLeaderLoad m) leader \<le> load_of (brokerLeaderLoad m) c))"
      using elect_op [of env m p st] e by blast
    from e t a b c show ?thesis by simp
  qed
  have n: "st = None \<and> rop = None \<and> timer l' = Some TimerRunning"
    if h: "2 * int (fcard (witnessReplicas l')) \<le> int (ISRSize p) - 1"
    using r h w by (auto simp: addWitness_cases split: if_splits)
  have x: "\<forall>k. map_of (leaderReports (leaderReportExpired m k)) k = None"
    by (simp add: leaderReportExpired_def delete_conv')
  from w q n x show ?thesis by blast
qed


lemma select_leaderReports:
  "selectPartitionLeader (m\<lparr>leaderReports := x\<rparr>) cs = selectPartitionLeader m cs"
  by (simp add: selectPartitionLeader_def)

lemma check_leaderReports:
  "checkChangeLeaderPreconditions (m\<lparr>leaderReports := x\<rparr>) rop =
   checkChangeLeaderPreconditions m rop"
  by (simp add: checkChangeLeaderPreconditions_def partitionExists_def GetStream_def
      split: raft_op.splits)

lemma elect_leaderReports:
  "electNewPartitionLeader env (m\<lparr>leaderReports := x\<rparr>) p = electNewPartitionLeader env m p"
  unfolding electNewPartitionLeader_def select_leaderReports check_leaderReports ..

text \<open>
  Claim C5. On the metadata leader, for a request that names an existing partition with
  its current leader and leader epoch, \<open>ReportLeader\<close> adds the replica to the
  partition's witnesses. When the number of witnesses exceeds half of the ISR size minus
  one, the result is that of \<open>electNewPartitionLeader\<close> and a running timer is stopped:
  the election fails with "No ISR candidates" when the ISR without the leader is empty,
  and an operation handed to Raft is a leader change of this partition to a member of the
  ISR other than the leader, of the lowest leader load among those. Otherwise the call
  returns \<open>nil\<close> and the timer runs (reset or started). When the timer fires, the
  partition's report, with its witnesses, is deleted.
\<close>

theorem ReportLeader_quorum:
  assumes lead: "IsLeader env"
    and part: "GetPartition m (req_Stream req) (req_Partition req) = Some p"
    and match: "req_Leader req = Leader p \<and> req_LeaderEpoch req = PartitionLeaderEpoch p"
    and res: "ReportLeader env m req = ((st, rop), m')"
  shows
    "(\<exists>l'. map_of (leaderReports m') (req_Stream req, req_Partition req) = Some l' \<and>
        witnessReplicas l' =
          finsert (req_Replica req)
            (case map_of (leaderReports m) (req_Stream req, req_Partition req) of
               None \<Rightarrow> {||} | Some l \<Rightarrow> witnessReplicas l) \<and>
        (int (ISRSize p) - 1 < 2 * int (fcard (witnessReplicas l')) \<longrightarrow>
           (st, rop) = electNewPartitionLeader env m p \<and>
           timer l' =
             (case map_of (leaderReports m) (req_Stream req, req_Partition req) of
                None \<Rightarrow> None | Some l \<Rightarrow> map_option (\<lambda>t. TimerStopped) (timer l)) \<and>
           (filter (\<lambda>c. c \<noteq> Leader p) (Isr p) = [] \<longrightarrow>
              st = Some (Status FailedPrecondition ''No ISR candidates'') \<and> rop = None) \<and>
           (1 < length (Isr p) \<and> filter (\<lambda>c. c \<noteq> Leader p) (Isr p) \<noteq> [] \<longrightarrow> rop \<noteq> None) \<and>
           (\<forall>x. rop = Some x \<longrightarrow>
              (\<exists>leader. x = OpChangeLeader (Stream p) (PartitionId p) leader \<and>
                 leader \<in> set (Isr p) \<and> leader \<noteq> Leader p \<and>
                 (\<forall>c\<in>set (Isr p). c \<noteq> Leader p \<longrightarrow>
                    load_of (brokerLeaderLoad m) leader \<le> load_of (brokerLeaderLoad m) c)))) \<and>
        (2 * int (fcard (witnessReplicas l')) \<le> int (ISRSize p) - 1 \<longrightarrow>
           st = None \<and> rop = None \<and> timer l' = Some TimerRunning)) \<and>
     map_of (leaderReports (leaderReportExpired m' (req_Stream req, req_Partition req)))
       (req_Stream req, req_Partition req) = None"
proof -
  let ?k = "(req_Stream req, req_Partition req)"
  let ?l = "case map_of (leaderReports m) ?k of
              None \<Rightarrow> \<lparr>witnessReplicas = {||}, timer = None\<rparr> | Some r \<Rightarrow> r"
  let ?m1 = "m\<lparr>leaderReports := AList.update ?k ?l (leaderReports m)\<rparr>"
  obtain res l' where aw: "addWitness env ?m1 ?l p (req_Replica req) = (res, l')"
    by (cases "addWitness env ?m1 ?l p (req_Replica req)")
  have rl: "ReportLeader env m req =
      (res, ?m1\<lparr>leaderReports := AList.update ?k l' (leaderReports ?m1)\<rparr>)"
    using lead part match aw
    by (simp add: ReportLeader_def GetLeader_def Let_def)
  with res have r: "res = (st, rop)"
    and m': "m' = ?m1\<lparr>leaderReports := AList.update ?k l' (leaderReports ?m1)\<rparr>" by simp_all
  have look: "map_of (leaderReports m') ?k = Some l'" by (simp add: m' update_conv')
  have w0: "witnessReplicas ?l =
      (case map_of (leaderReports m) ?k of None \<Rightarrow> {||} | Some l \<Rightarrow> witnessReplicas l)"
    by (simp split: option.splits)
  have t0: "map_option (\<lambda>t. TimerStopped) (timer ?l) =
      (case map_of (leaderReports m) ?k of
         None \<Rightarrow> None | Some l \<Rightarrow> map_option (\<lambda>t. TimerStopped) (timer l))"
    by (simp split: option.splits)
  have bl: "brokerLeaderLoad ?m1 = brokerLeaderLoad m" by simp
  note e = addWitness_effect [OF aw [unfolded r], unfolded elect_leaderReports w0 t0 bl]
  have x: "map_of (leaderReports (leaderReportExpired m' ?k)) ?k = None"
    by (simp add: leaderReportExpired_def delete_conv')
  from look e x show ?thesis by blast
qed

lemma ReportLeader_frame:
  "streams (snd (ReportLeader env m req)) = streams m \<and>
   brokerLeaderLoad (snd (ReportLeader env m req)) = brokerLeaderLoad m \<and>
   brokerPartitionLoad (snd (ReportLeader env m req)) = brokerPartitionLoad m"
  by (simp add: ReportLeader_def Let_def split: option.splits prod.splits)

lemma GetPartition_streams: "streams m' = streams m \<Longrightarrow> GetPartition m' sn i = GetPartition m sn i"
  by (simp add: GetPartition_def)

lemma GetPartition_ex_meta:
  "GetPartition ex_meta ''s'' 0 = Some (ex_partition ''s'' [''a'', ''b'', ''c''] ''a'')"
  by (simp add: GetPartition_def ex_meta_def ex_stream_def stream_GetPartition_def)

theorem ReportLeader_quorum_witness:
  "IsLeader ex_meta_env \<and>
   fst (ReportLeader ex_meta_env ex_meta
          \<lparr>req_Stream = ''s'', req_Partition = 0, req_Replica = ''b'', req_Leader = ''a'',
           req_LeaderEpoch = 5\<rparr>) = (None, None) \<and>
   map_of (leaderReports (snd (ReportLeader ex_meta_env ex_meta
          \<lparr>req_Stream = ''s'', req_Partition = 0, req_Replica = ''b'', req_Leader = ''a'',
           req_LeaderEpoch = 5\<rparr>))) (''s'', 0) =
     Some \<lparr>witnessReplicas = {|''b''|}, timer = Some TimerRunning\<rparr> \<and>
   fst (ReportLeader ex_meta_env
          (snd (ReportLeader ex_meta_env ex_meta
             \<lparr>req_Stream = ''s'', req_Partition = 0, req_Replica = ''b'', req_Leader = ''a'',
              req_LeaderEpoch = 5\<rparr>))
          \<lparr>req_Stream = ''s'', req_Partition = 0, req_Replica = ''c'', req_Leader = ''a'',
           req_LeaderEpoch = 5\<rparr>) = (None, Some (OpChangeLeader ''s'' 0 ''c''))"
proof -
  define rb where "rb = \<lparr>req_Stream = ''s'', req_Partition = 0, req_Replica = ''b'',
      req_Leader = ''a'', req_LeaderEpoch = 5\<rparr>"
  define rc where "rc = \<lparr>req_Stream = ''s'', req_Partition = 0, req_Replica = ''c'',
      req_Leader = ''a'', req_LeaderEpoch = 5\<rparr>"
  define p where "p = ex_partition ''s'' [''a'', ''b'', ''c''] ''a''"
  have rbf: "req_Stream rb = ''s''" "req_Partition rb = 0" "req_Replica rb = ''b''"
    "req_Leader rb = ''a''" "req_LeaderEpoch rb = 5" by (simp_all add: rb_def)
  have rcf: "req_Stream rc = ''s''" "req_Partition rc = 0" "req_Replica rc = ''c''"
    "req_Leader rc = ''a''" "req_LeaderEpoch rc = 5" by (simp_all add: rc_def)
  have lead: "IsLeader ex_meta_env" by (simp add: ex_meta_env_def)
  have pf: "Leader p = ''a''" "PartitionLeaderEpoch p = 5" "Isr p = [''a'', ''b'', ''c'']"
    "ISRSize p = 3" "Stream p = ''s''" "PartitionId p = 0"
    by (simp_all add: p_def ex_partition_def ISRSize_def)
  define m1 where "m1 = snd (ReportLeader ex_meta_env ex_meta rb)"
  obtain st1 rop1 where r1: "ReportLeader ex_meta_env ex_meta rb = ((st1, rop1), m1)"
    unfolding m1_def by (metis prod.collapse)
  have gp0: "GetPartition ex_meta (req_Stream rb) (req_Partition rb) = Some p"
    by (simp add: rbf p_def GetPartition_ex_meta)
  have mt0: "req_Leader rb = Leader p \<and> req_LeaderEpoch rb = PartitionLeaderEpoch p"
    by (simp add: rbf pf)
  have lr0: "map_of (leaderReports ex_meta) (''s'', 0) = None" by (simp add: ex_meta_def)
  note t1 = ReportLeader_quorum [OF lead gp0 mt0 r1, unfolded rbf lr0 option.case pf]
  from t1 obtain l1 where l1: "map_of (leaderReports m1) (''s'', 0) = Some l1"
    and w1: "witnessReplicas l1 = {|''b''|}"
    and n1: "2 * int (fcard (witnessReplicas l1)) \<le> int 3 - 1 \<longrightarrow>
           st1 = None \<and> rop1 = None \<and> timer l1 = Some TimerRunning"
    by blast
  have c1: "fcard {|''b''|} = 1" by (simp add: fcard_finsert_if)
  from n1 have f1: "st1 = None" "rop1 = None" "timer l1 = Some TimerRunning"
    by (simp_all add: w1 c1)
  from w1 f1(3) have l1v: "l1 = \<lparr>witnessReplicas = {|''b''|}, timer = Some TimerRunning\<rparr>"
    by (cases l1) simp
  have fr: "streams m1 = streams ex_meta" "brokerLeaderLoad m1 = brokerLeaderLoad ex_meta"
    unfolding m1_def using ReportLeader_frame [of ex_meta_env ex_meta rb] by simp_all
  have gp1: "GetPartition m1 (req_Stream rc) (req_Partition rc) = Some p"
    by (simp add: rcf p_def GetPartition_streams [OF fr(1)] GetPartition_ex_meta)
  have mt1: "req_Leader rc = Leader p \<and> req_LeaderEpoch rc = PartitionLeaderEpoch p"
    by (simp add: rcf pf)
  obtain st2 rop2 m2 where r2: "ReportLeader ex_meta_env m1 rc = ((st2, rop2), m2)"
    by (metis prod.collapse)
  have sel: "selectPartitionLeader m1 [''b'', ''c''] = Some (''c'', [''c'', ''b''])"
    by (simp add: selectPartitionLeader_def sort_key_def fr ex_meta_loads)
  have chk: "checkChangeLeaderPreconditions m1 (OpChangeLeader ''s'' 0 ''c'') = None"
    by (simp add: checkChangeLeaderPreconditions_def partitionExists_def GetStream_def fr
        ex_meta_def ex_stream_def stream_GetPartition_def)
  have ap: "applyOperation ex_meta_env (OpChangeLeader ''s'' 0 ''c'') None = Applied"
    by (simp add: ex_meta_env_def)
  have e: "electNewPartitionLeader ex_meta_env m1 p = (None, Some (OpChangeLeader ''s'' 0 ''c''))"
    by (simp add: electNewPartitionLeader_def GetISR_def GetLeader_def pf Let_def sel chk ap)
  note t2 = ReportLeader_quorum [OF lead gp1 mt1 r2, unfolded rcf l1 option.case pf w1]
  from t2 obtain l2 :: leaderReport where w2: "witnessReplicas l2 = {|''c'', ''b''|}"
    and q2: "int 3 - 1 < 2 * int (fcard (witnessReplicas l2)) \<longrightarrow>
           (st2, rop2) = electNewPartitionLeader ex_meta_env m1 p"
    by blast
  have c2: "fcard {|''c'', ''b''|} = 2" by (simp add: fcard_finsert_if)
  from q2 e have f2: "st2 = None" "rop2 = Some (OpChangeLeader ''s'' 0 ''c'')"
    by (simp_all add: w2 c2)
  have a1: "fst (ReportLeader ex_meta_env ex_meta rb) = (None, None)" using r1 f1 by simp
  have a2: "map_of (leaderReports (snd (ReportLeader ex_meta_env ex_meta rb))) (''s'', 0) =
     Some \<lparr>witnessReplicas = {|''b''|}, timer = Some TimerRunning\<rparr>"
    using l1 l1v by (simp add: m1_def)
  have a3: "fst (ReportLeader ex_meta_env (snd (ReportLeader ex_meta_env ex_meta rb)) rc) =
      (None, Some (OpChangeLeader ''s'' 0 ''c''))"
    using r2 f2 by (simp add: m1_def)
  from lead a1 a2 a3 show ?thesis unfolding rb_def rc_def by blast
qed

subsection \<open>The epoch fence\<close>

lemma GetPartition_store:
  "GetPartition m sn i = Some p \<Longrightarrow> GetPartition (storePartition m sn i p') sn i = Some p'"
  by (auto simp: GetPartition_def storePartition_def stream_GetPartition_def SetPartition_def
      update_conv' split: option.splits)

lemma GetPartition_loads [simp]:
  "GetPartition (m\<lparr>brokerLeaderLoad := x\<rparr>) sn i = GetPartition m sn i"
  by (simp add: GetPartition_def)

lemma RemoveFromISR_fenced:
  "GetPartition m sn i = Some p \<Longrightarrow> epoch \<le> GetEpoch p \<Longrightarrow>
   RemoveFromISR env m sn replica i epoch = (None, m)"
  by (simp add: RemoveFromISR_def)

lemma AddToISR_fenced:
  "GetPartition m sn i = Some p \<Longrightarrow> epoch \<le> GetEpoch p \<Longrightarrow>
   AddToISR env m sn replica i epoch = (None, m)"
  by (simp add: AddToISR_def)

lemma ChangeLeader_fenced:
  "GetPartition m sn i = Some p \<Longrightarrow> epoch \<le> GetEpoch p \<Longrightarrow>
   ChangeLeader env m sn leader i epoch = (None, m)"
  by (simp add: ChangeLeader_def)

lemma RemoveFromISR_applied:
  assumes "GetPartition m sn i = Some p" and "GetEpoch p < epoch"
    and "RemoveFromISR env m sn replica i epoch = (None, m')"
  shows "GetPartition m' sn i = Some (SetEpoch (snd (partition_RemoveFromISR env replica p)) epoch)"
  using assms
  by (auto simp: RemoveFromISR_def GetPartition_store split: prod.splits option.splits)

lemma AddToISR_applied:
  assumes "GetPartition m sn i = Some p" and "GetEpoch p < epoch"
    and "AddToISR env m sn replica i epoch = (None, m')"
  shows "GetPartition m' sn i = Some (SetEpoch (snd (partition_AddToISR env replica p)) epoch)"
  using assms
  by (auto simp: AddToISR_def GetPartition_store split: prod.splits option.splits)

lemma ChangeLeader_applied:
  assumes "GetPartition m sn i = Some p" and "GetEpoch p < epoch"
    and "ChangeLeader env m sn leader i epoch = (None, m')"
  shows "GetPartition m' sn i = Some (SetEpoch (snd (partition_SetLeader env leader epoch p)) epoch)"
  using assms
  by (auto simp: ChangeLeader_def Let_def GetPartition_store split: prod.splits option.splits)

lemma RemoveFromISR_epoch:
  assumes "GetPartition m sn i = Some p" and "keeps_epoch env"
  shows "\<exists>p'. GetPartition (snd (RemoveFromISR env m sn replica i epoch)) sn i = Some p' \<and>
           GetEpoch p \<le> GetEpoch p'"
proof (cases "epoch \<le> GetEpoch p")
  case True
  with assms show ?thesis by (simp add: RemoveFromISR_fenced)
next
  case False
  obtain e q where c: "partition_RemoveFromISR env replica p = (e, q)" by force
  from assms(2) have "Epoch (snd (partition_RemoveFromISR env replica p)) = Epoch p"
    unfolding keeps_epoch_def by blast
  with c have "Epoch q = Epoch p" by simp
  with assms(1) False c show ?thesis
    by (cases e) (auto simp: RemoveFromISR_def GetPartition_store GetEpoch_def SetEpoch_def)
qed

lemma AddToISR_epoch:
  assumes "GetPartition m sn i = Some p" and "keeps_epoch env"
  shows "\<exists>p'. GetPartition (snd (AddToISR env m sn replica i epoch)) sn i = Some p' \<and>
           GetEpoch p \<le> GetEpoch p'"
proof (cases "epoch \<le> GetEpoch p")
  case True
  with assms show ?thesis by (simp add: AddToISR_fenced)
next
  case False
  obtain e q where c: "partition_AddToISR env replica p = (e, q)" by force
  from assms(2) have "Epoch (snd (partition_AddToISR env replica p)) = Epoch p"
    unfolding keeps_epoch_def by blast
  with c have "Epoch q = Epoch p" by simp
  with assms(1) False c show ?thesis
    by (cases e) (auto simp: AddToISR_def GetPartition_store GetEpoch_def SetEpoch_def)
qed

lemma ChangeLeader_epoch:
  assumes "GetPartition m sn i = Some p" and "keeps_epoch env"
  shows "\<exists>p'. GetPartition (snd (ChangeLeader env m sn leader i epoch)) sn i = Some p' \<and>
           GetEpoch p \<le> GetEpoch p'"
proof (cases "epoch \<le> GetEpoch p")
  case True
  with assms show ?thesis by (simp add: ChangeLeader_fenced)
next
  case False
  obtain e q where c: "partition_SetLeader env leader epoch p = (e, q)" by force
  from assms(2) have "Epoch (snd (partition_SetLeader env leader epoch p)) = Epoch p"
    unfolding keeps_epoch_def by blast
  with c have "Epoch q = Epoch p" by simp
  with assms(1) False c show ?thesis
    by (cases e) (auto simp: ChangeLeader_def Let_def GetPartition_store GetEpoch_def SetEpoch_def)
qed

text \<open>
  Claim C6. For an existing partition, \<open>RemoveFromISR\<close>, \<open>AddToISR\<close> and
  \<open>ChangeLeader\<close> called with an epoch at or below the partition's epoch return \<open>nil\<close>
  and leave the whole store as it is. Called with a greater epoch, a call that returns
  \<open>nil\<close> leaves the partition as its method left it with the epoch set to the supplied
  one, and the same call on the resulting store returns \<open>nil\<close> and changes nothing.
  Given that the partition's own methods do not write the epoch, the partition's epoch
  never decreases, whatever the call returns.
\<close>

theorem epoch_fence:
  assumes part: "GetPartition m sn i = Some p"
  shows
    "(epoch \<le> GetEpoch p \<longrightarrow>
        RemoveFromISR env m sn replica i epoch = (None, m) \<and>
        AddToISR env m sn replica i epoch = (None, m) \<and>
        ChangeLeader env m sn leader i epoch = (None, m)) \<and>
     (GetEpoch p < epoch \<longrightarrow>
        (\<forall>m'. RemoveFromISR env m sn replica i epoch = (None, m') \<longrightarrow>
           GetPartition m' sn i =
             Some (SetEpoch (snd (partition_RemoveFromISR env replica p)) epoch) \<and>
           RemoveFromISR env m' sn replica i epoch = (None, m')) \<and>
        (\<forall>m'. AddToISR env m sn replica i epoch = (None, m') \<longrightarrow>
           GetPartition m' sn i =
             Some (SetEpoch (snd (partition_AddToISR env replica p)) epoch) \<and>
           AddToISR env m' sn replica i epoch = (None, m')) \<and>
        (\<forall>m'. ChangeLeader env m sn leader i epoch = (None, m') \<longrightarrow>
           GetPartition m' sn i =
             Some (SetEpoch (snd (partition_SetLeader env leader epoch p)) epoch) \<and>
           ChangeLeader env m' sn leader i epoch = (None, m'))) \<and>
     (keeps_epoch env \<longrightarrow>
        (\<exists>p'. GetPartition (snd (RemoveFromISR env m sn replica i epoch)) sn i = Some p' \<and>
               GetEpoch p \<le> GetEpoch p') \<and>
        (\<exists>p'. GetPartition (snd (AddToISR env m sn replica i epoch)) sn i = Some p' \<and>
               GetEpoch p \<le> GetEpoch p') \<and>
        (\<exists>p'. GetPartition (snd (ChangeLeader env m sn leader i epoch)) sn i = Some p' \<and>
               GetEpoch p \<le> GetEpoch p'))"
proof -
  have a: "RemoveFromISR env m sn replica i epoch = (None, m) \<and>
        AddToISR env m sn replica i epoch = (None, m) \<and>
        ChangeLeader env m sn leader i epoch = (None, m)" if "epoch \<le> GetEpoch p"
    using part that by (simp add: RemoveFromISR_fenced AddToISR_fenced ChangeLeader_fenced)
  have e: "GetEpoch (SetEpoch q epoch) = epoch" for q by (simp add: GetEpoch_def SetEpoch_def)
  have b1: "GetPartition m' sn i =
             Some (SetEpoch (snd (partition_RemoveFromISR env replica p)) epoch) \<and>
           RemoveFromISR env m' sn replica i epoch = (None, m')"
    if "GetEpoch p < epoch" "RemoveFromISR env m sn replica i epoch = (None, m')" for m'
  proof -
    note g = RemoveFromISR_applied [OF part that]
    from RemoveFromISR_fenced [OF g, of epoch env replica] g show ?thesis by (simp add: e)
  qed
  have b2: "GetPartition m' sn i =
             Some (SetEpoch (snd (partition_AddToISR env replica p)) epoch) \<and>
           AddToISR env m' sn replica i epoch = (None, m')"
    if "GetEpoch p < epoch" "AddToISR env m sn replica i epoch = (None, m')" for m'
  proof -
    note g = AddToISR_applied [OF part that]
    from AddToISR_fenced [OF g, of epoch env replica] g show ?thesis by (simp add: e)
  qed
  have b3: "GetPartition m' sn i =
             Some (SetEpoch (snd (partition_SetLeader env leader epoch p)) epoch) \<and>
           ChangeLeader env m' sn leader i epoch = (None, m')"
    if "GetEpoch p < epoch" "ChangeLeader env m sn leader i epoch = (None, m')" for m'
  proof -
    note g = ChangeLeader_applied [OF part that]
    from ChangeLeader_fenced [OF g, of epoch env leader] g show ?thesis by (simp add: e)
  qed
  have c: "(\<exists>p'. GetPartition (snd (RemoveFromISR env m sn replica i epoch)) sn i = Some p' \<and>
               GetEpoch p \<le> GetEpoch p') \<and>
        (\<exists>p'. GetPartition (snd (AddToISR env m sn replica i epoch)) sn i = Some p' \<and>
               GetEpoch p \<le> GetEpoch p') \<and>
        (\<exists>p'. GetPartition (snd (ChangeLeader env m sn leader i epoch)) sn i = Some p' \<and>
               GetEpoch p \<le> GetEpoch p')" if "keeps_epoch env"
    using RemoveFromISR_epoch [OF part that] AddToISR_epoch [OF part that]
      ChangeLeader_epoch [OF part that] by blast
  from a b1 b2 b3 c show ?thesis by blast
qed

lemma ex_env_fields:
  "partition_RemoveFromISR ex_meta_env = (\<lambda>r p. (None, p\<lparr>Isr := removeAll r (Isr p)\<rparr>))"
  "partition_SetLeader ex_meta_env = (\<lambda>leader epoch p. (None, p\<lparr>Leader := leader, PartitionLeaderEpoch := epoch\<rparr>))"
  "partition_AddToISR ex_meta_env = (\<lambda>r p. (None, p\<lparr>Isr := List.insert r (Isr p)\<rparr>))"
  "partition_Pause ex_meta_env = (\<lambda>p. (None, p\<lparr>Paused := True\<rparr>))"
  "stream_Pause ex_meta_env = ex_stream_Pause"
  "stream_Close ex_meta_env = (\<lambda>s. None)"
  "stream_Delete ex_meta_env = (\<lambda>s. None)"
  "removeDataDir ex_meta_env = (\<lambda>s. None)"
  "newPartition ex_meta_env = (\<lambda>p recovered. Inr p)"
  "replacePartition ex_meta_env = (\<lambda>p recovered. Inr (p\<lparr>Paused := False\<rparr>))"
  "getClusterServerIDs ex_meta_env = Inr [''a'', ''b'', ''c'']"
  "MetadataCacheMaxAge ex_meta_env = 100"
  "subscribeError ex_meta_env = None" "publishError ex_meta_env = None"
  "ServerID ex_meta_env = ''a''" "ConnectionHost ex_meta_env = ''localhost''"
  "ConnectionPort ex_meta_env = 9292"
  "surveyMessages ex_meta_env =
     [Some \<lparr>resp_Id = ''b'', resp_Host = ''localhost'', resp_Port = 9293\<rparr>, None,
      Some \<lparr>resp_Id = ''c'', resp_Host = ''localhost'', resp_Port = 9294\<rparr>]"
  by (simp_all add: ex_meta_env_def)

lemma keeps_epoch_ex: "keeps_epoch ex_meta_env"
  by (simp add: keeps_epoch_def ex_env_fields)

theorem epoch_fence_witness:
  "GetPartition ex_meta ''s'' 0 = Some (ex_partition ''s'' [''a'', ''b'', ''c''] ''a'') \<and>
   GetEpoch (ex_partition ''s'' [''a'', ''b'', ''c''] ''a'') = 5 \<and>
   RemoveFromISR ex_meta_env ex_meta ''s'' ''b'' 0 5 = (None, ex_meta) \<and>
   AddToISR ex_meta_env ex_meta ''s'' ''b'' 0 5 = (None, ex_meta) \<and>
   ChangeLeader ex_meta_env ex_meta ''s'' ''b'' 0 4 = (None, ex_meta) \<and>
   fst (RemoveFromISR ex_meta_env ex_meta ''s'' ''b'' 0 6) = None \<and>
   GetPartition (snd (RemoveFromISR ex_meta_env ex_meta ''s'' ''b'' 0 6)) ''s'' 0 =
     Some ((ex_partition ''s'' [''a'', ''b'', ''c''] ''a'')\<lparr>Isr := [''a'', ''c''], Epoch := 6\<rparr>) \<and>
   RemoveFromISR ex_meta_env (snd (RemoveFromISR ex_meta_env ex_meta ''s'' ''b'' 0 6)) ''s'' ''b'' 0 6 =
     (None, snd (RemoveFromISR ex_meta_env ex_meta ''s'' ''b'' 0 6)) \<and>
   fst (ChangeLeader ex_meta_env ex_meta ''s'' ''b'' 0 6) = None \<and>
   GetPartition (snd (ChangeLeader ex_meta_env ex_meta ''s'' ''b'' 0 6)) ''s'' 0 =
     Some ((ex_partition ''s'' [''a'', ''b'', ''c''] ''a'')
             \<lparr>Leader := ''b'', PartitionLeaderEpoch := 6, Epoch := 6\<rparr>) \<and>
   keeps_epoch ex_meta_env"
proof -
  define p where "p = ex_partition ''s'' [''a'', ''b'', ''c''] ''a''"
  have gp: "GetPartition ex_meta ''s'' 0 = Some p" by (simp add: p_def GetPartition_ex_meta)
  have ep: "GetEpoch p = 5" by (simp add: p_def GetEpoch_def ex_partition_def)
  note f5 = epoch_fence [OF gp, of 5 ex_meta_env "''b''" "''b''"]
  note f4 = epoch_fence [OF gp, of 4 ex_meta_env "''b''" "''b''"]
  note f6 = epoch_fence [OF gp, of 6 ex_meta_env "''b''" "''b''"]
  from f5 ep have a1: "RemoveFromISR ex_meta_env ex_meta ''s'' ''b'' 0 5 = (None, ex_meta)"
    and a2: "AddToISR ex_meta_env ex_meta ''s'' ''b'' 0 5 = (None, ex_meta)" by simp_all
  from f4 ep have a3: "ChangeLeader ex_meta_env ex_meta ''s'' ''b'' 0 4 = (None, ex_meta)" by simp
  have r6: "fst (RemoveFromISR ex_meta_env ex_meta ''s'' ''b'' 0 6) = None"
    by (simp add: RemoveFromISR_def gp ep ex_env_fields)
  then have r6': "RemoveFromISR ex_meta_env ex_meta ''s'' ''b'' 0 6 =
      (None, snd (RemoveFromISR ex_meta_env ex_meta ''s'' ''b'' 0 6))"
    by (simp add: prod_eq_iff)
  have c6: "fst (ChangeLeader ex_meta_env ex_meta ''s'' ''b'' 0 6) = None"
    by (simp add: ChangeLeader_def gp ep ex_env_fields Let_def)
  then have c6': "ChangeLeader ex_meta_env ex_meta ''s'' ''b'' 0 6 =
      (None, snd (ChangeLeader ex_meta_env ex_meta ''s'' ''b'' 0 6))"
    by (simp add: prod_eq_iff)
  from f6 ep r6' have b1: "GetPartition (snd (RemoveFromISR ex_meta_env ex_meta ''s'' ''b'' 0 6)) ''s'' 0 =
             Some (SetEpoch (snd (partition_RemoveFromISR ex_meta_env ''b'' p)) 6)"
    and b2: "RemoveFromISR ex_meta_env (snd (RemoveFromISR ex_meta_env ex_meta ''s'' ''b'' 0 6)) ''s'' ''b'' 0 6 =
     (None, snd (RemoveFromISR ex_meta_env ex_meta ''s'' ''b'' 0 6))"
    by simp_all
  from f6 ep c6' have b3: "GetPartition (snd (ChangeLeader ex_meta_env ex_meta ''s'' ''b'' 0 6)) ''s'' 0 =
             Some (SetEpoch (snd (partition_SetLeader ex_meta_env ''b'' 6 p)) 6)"
    by simp
  have v1: "SetEpoch (snd (partition_RemoveFromISR ex_meta_env ''b'' p)) 6 =
      p\<lparr>Isr := [''a'', ''c''], Epoch := 6\<rparr>"
    by (simp add: ex_env_fields SetEpoch_def p_def ex_partition_def)
  have v2: "SetEpoch (snd (partition_SetLeader ex_meta_env ''b'' 6 p)) 6 =
      p\<lparr>Leader := ''b'', PartitionLeaderEpoch := 6, Epoch := 6\<rparr>"
    by (simp add: ex_env_fields SetEpoch_def p_def ex_partition_def)
  note b1' = b1 [unfolded v1] and b3' = b3 [unfolded v2]
  from gp ep a1 a2 a3 r6 b1' b2 c6 b3' keeps_epoch_ex show ?thesis
    unfolding p_def by blast
qed

subsection \<open>The load counters\<close>

lemma load_of_incr: "load_of (incr ld b) x = (if x = b then load_of ld b + 1 else load_of ld x)"
  by (simp add: incr_def load_of_def)

lemma load_of_decr:
  "load_of (decr ld b) x = (if x = b \<and> 0 < load_of ld b then load_of ld b - 1 else load_of ld x)"
  by (simp add: decr_def load_of_def)

lemma decr_at_zero: "load_of ld b \<le> 0 \<Longrightarrow> decr ld b = ld"
  by (simp add: decr_def)

lemma nn_incr: "nn ld \<Longrightarrow> nn (incr ld b)"
  unfolding nn_def by (auto simp: load_of_incr intro: order_trans)

lemma nn_decr: "nn ld \<Longrightarrow> nn (decr ld b)"
  unfolding nn_def by (auto simp: load_of_decr)

lemma nn_foldl_incr: "nn ld \<Longrightarrow> nn (foldl incr ld bs)"
  by (induction bs arbitrary: ld) (simp_all add: nn_incr)

lemma nn_foldl_decr: "nn ld \<Longrightarrow> nn (foldl decr ld bs)"
  by (induction bs arbitrary: ld) (simp_all add: nn_decr)

lemma loads_nonneg_nn:
  "loads_nonneg m = (nn (brokerPartitionLoad m) \<and> nn (brokerLeaderLoad m))"
  by (auto simp: loads_nonneg_def nn_def)

lemma nonneg_addLoad: "loads_nonneg m \<Longrightarrow> loads_nonneg (addLoad m p)"
  by (simp add: loads_nonneg_nn addLoad_def nn_foldl_incr nn_incr)

lemma nonneg_removeLoad: "loads_nonneg m \<Longrightarrow> loads_nonneg (removeLoad m p)"
  by (simp add: loads_nonneg_nn removeLoad_def nn_foldl_decr nn_decr)

lemma nonneg_foldl_addLoad: "loads_nonneg m \<Longrightarrow> loads_nonneg (foldl addLoad m ps)"
  by (induction ps arbitrary: m) (simp_all add: nonneg_addLoad)

lemma nonneg_foldl_removeLoad: "loads_nonneg m \<Longrightarrow> loads_nonneg (foldl removeLoad m ps)"
  by (induction ps arbitrary: m) (simp_all add: nonneg_removeLoad)

lemma nonneg_streams [simp]: "loads_nonneg (m\<lparr>streams := x\<rparr>) = loads_nonneg m"
  by (simp add: loads_nonneg_def)

lemma nonneg_leaderReports [simp]: "loads_nonneg (m\<lparr>leaderReports := x\<rparr>) = loads_nonneg m"
  by (simp add: loads_nonneg_def)

lemma nonneg_removeStream [simp]: "loads_nonneg (removeStream m s) = loads_nonneg m"
  by (simp add: removeStream_def)

lemma nonneg_storePartition [simp]: "loads_nonneg (storePartition m sn i p) = loads_nonneg m"
  by (simp add: storePartition_def split: option.splits)

lemma nonneg_AddStream:
  "loads_nonneg m \<Longrightarrow> loads_nonneg (snd (AddStream env m ps recovered))"
  by (auto simp: AddStream_def Let_def nonneg_foldl_addLoad
      split: option.splits sum.splits prod.splits if_splits)

lemma nonneg_ResumePartition:
  "loads_nonneg m \<Longrightarrow> loads_nonneg (snd (ResumePartition env m sn i recovered))"
  by (auto simp: ResumePartition_def Let_def loads_nonneg_nn nn_foldl_incr nn_incr
      split: option.splits sum.splits prod.splits if_splits)

lemma nonneg_ChangeLeader:
  "loads_nonneg m \<Longrightarrow> loads_nonneg (snd (ChangeLeader env m sn leader i epoch))"
proof -
  assume a: "loads_nonneg m"
  have "\<And>p. loads_nonneg (storePartition m sn i p)" using a by simp
  then have "\<And>p. nn (brokerPartitionLoad (storePartition m sn i p)) \<and>
                  nn (brokerLeaderLoad (storePartition m sn i p))"
    by (simp add: loads_nonneg_nn)
  with a show ?thesis
    by (auto simp: ChangeLeader_def Let_def loads_nonneg_nn nn_incr nn_decr
        split: option.splits prod.splits if_splits)
qed

lemma nonneg_PausePartitions:
  "loads_nonneg m \<Longrightarrow> loads_nonneg (snd (PausePartitions env m sn ids resumeAll))"
  by (auto simp: PausePartitions_def nonneg_foldl_removeLoad
      split: option.splits sum.splits prod.splits)

lemma nonneg_deleteStream:
  "loads_nonneg m \<Longrightarrow> loads_nonneg (snd (deleteStream env m s))"
  by (auto simp: deleteStream_def split: option.splits)

lemma nonneg_RemoveStream:
  "loads_nonneg m \<Longrightarrow> loads_nonneg (snd (RemoveStream env m s recovered))"
proof -
  assume a: "loads_nonneg m"
  obtain e m1 where d: "deleteStream env m s = (e, m1)" by force
  with nonneg_deleteStream [OF a, of env s] have "loads_nonneg m1" by simp
  with a d show ?thesis
    by (auto simp: RemoveStream_def nonneg_foldl_removeLoad split: option.splits prod.splits)
qed

lemma nonneg_meta_step: "loads_nonneg m \<Longrightarrow> loads_nonneg (meta_step m eo)"
proof -
  assume a: "loads_nonneg m"
  obtain env op where eo: "eo = (env, op)" by (cases eo)
  show ?thesis unfolding eo using a
    by (cases op)
      (simp_all add: nonneg_AddStream nonneg_ResumePartition nonneg_ChangeLeader
        nonneg_PausePartitions nonneg_RemoveStream)
qed

lemma nonneg_meta_run: "loads_nonneg m \<Longrightarrow> loads_nonneg (meta_run m ops)"
  unfolding meta_run_def by (induction ops arbitrary: m) (simp_all add: nonneg_meta_step)

lemma nonneg_new: "loads_nonneg newMetadataAPI"
  by (simp add: loads_nonneg_def newMetadataAPI_def load_of_def)

text \<open>
  Claim C10. After every sequence of \<open>AddStream\<close>, \<open>ResumePartition\<close>, \<open>ChangeLeader\<close>,
  \<open>PausePartitions\<close> and \<open>RemoveStream\<close>, in whatever environments and whether they fail
  or not, from the empty store or from any store whose counters are non-negative, every
  broker's partition count and leader count is non-negative. A decrement lowers a
  positive counter by one and leaves a counter at zero, and the map, unchanged.
\<close>

theorem loads_never_negative:
  "loads_nonneg (meta_run newMetadataAPI ops) \<and>
   (loads_nonneg m \<longrightarrow> loads_nonneg (meta_run m ops)) \<and>
   load_of (decr ld b) b = (if 0 < load_of ld b then load_of ld b - 1 else load_of ld b) \<and>
   (load_of ld b \<le> 0 \<longrightarrow> decr ld b = ld)"
  using nonneg_meta_run [OF nonneg_new, of ops] nonneg_meta_run [of m ops]
  by (simp add: load_of_decr decr_at_zero)

lemma ex_run_loads:
  "load_of (brokerPartitionLoad (meta_run newMetadataAPI (take 1 ex_ops))) ''a'' = 1"
  "load_of (brokerPartitionLoad (meta_run newMetadataAPI (take 2 ex_ops))) ''a'' = 0"
  "load_of (brokerPartitionLoad (meta_run newMetadataAPI ex_ops)) ''a'' = 0"
  "load_of (brokerLeaderLoad (meta_run newMetadataAPI ex_ops)) ''a'' = 0"
  by code_simp+

theorem loads_never_negative_witness:
  "loads_nonneg (meta_run newMetadataAPI ex_ops) \<and>
   load_of (brokerPartitionLoad (meta_run newMetadataAPI (take 1 ex_ops))) ''a'' = 1 \<and>
   load_of (brokerPartitionLoad (meta_run newMetadataAPI (take 2 ex_ops))) ''a'' = 0 \<and>
   load_of (brokerPartitionLoad (meta_run newMetadataAPI ex_ops)) ''a'' = 0 \<and>
   load_of (brokerLeaderLoad (meta_run newMetadataAPI ex_ops)) ''a'' = 0 \<and>
   decr (brokerPartitionLoad (meta_run newMetadataAPI ex_ops)) ''a'' =
     brokerPartitionLoad (meta_run newMetadataAPI ex_ops)"
  using loads_never_negative
    [of ex_ops newMetadataAPI "brokerPartitionLoad (meta_run newMetadataAPI ex_ops)" "''a''"]
    ex_run_loads
  by simp

subsection \<open>The broker cache\<close>







end
